theory Spec2Isabelle
  imports Main "HOL-Library.Word"
begin

unbundle bit_operations_syntax

text \<open>
  The utilities of the image minimizer plugin (\<open>src/utils.js\<close>): \<open>replaceFileExtension\<close>,
  the scheduler \<open>throttleAll\<close>, \<open>isAbsoluteURL\<close>, the sniffer \<open>fileTypeFromBuffer\<close> and the
  adapters for imagemin, squoosh, sharp and svgo. The definitions come first, each after
  the function of the source it embeds; the properties follow.
\<close>

section \<open>Strings and file names\<close>

text \<open>
  JavaScript strings are modelled as \<^typ>\<open>string\<close>: a list of code units, each below 256.
  The backslash is written \<open>CHR 0x5C\<close>.
\<close>

definition backslash :: char where
  "backslash = CHR 0x5C"

text \<open>
  The loop of \<open>replaceFileExtension\<close>: \<open>i\<close> runs from \<open>filename.length - 1\<close> down to 0;
  the argument \<open>n\<close> is \<open>i + 1\<close>. The result is \<open>dotIndex\<close>, \<open>None\<close> standing for -1.
\<close>

fun dotIndexFrom :: "string \<Rightarrow> nat \<Rightarrow> nat option" where
  "dotIndexFrom filename 0 = None"
| "dotIndexFrom filename (Suc i) =
     (if filename ! i = CHR ''.'' then Some i
      else if filename ! i = CHR ''/'' \<or> filename ! i = backslash then None
      else dotIndexFrom filename i)"

definition replaceFileExtension :: "string \<Rightarrow> string \<Rightarrow> string" where
  "replaceFileExtension filename ext =
     (case dotIndexFrom filename (length filename) of
        None \<Rightarrow> filename
      | Some dotIndex \<Rightarrow> take dotIndex filename @ ''.'' @ ext)"

text \<open>
  The last path segment of a file name, as the specification words it: the part after the
  last \<open>/\<close> or backslash separator (the whole name when it has none).
\<close>

definition lastSegment :: "string \<Rightarrow> string" where
  "lastSegment filename =
     rev (takeWhile (\<lambda>c. c \<noteq> CHR ''/'' \<and> c \<noteq> backslash) (rev filename))"

section \<open>The signature sniffer\<close>

type_synonym byte = "8 word"
type_synonym bytes = "byte list"

text \<open>
  The values \<open>fileTypeFromBuffer\<close> can be handed: the three byte-sequence types it accepts
  and anything else. What a function throws is the \<open>Inl\<close> side of its result.
\<close>

datatype input = Uint8Array bytes | ArrayBuffer bytes | Buffer bytes | NotBinary

datatype error = TypeError string | Error string | InvalidConfigError string

record fileType =
  ext :: string
  mime :: string

text \<open>\<open>buffer[i]\<close>: \<open>None\<close> is \<open>undefined\<close>, what a typed array gives out of range.\<close>

definition byteAt :: "bytes \<Rightarrow> nat \<Rightarrow> byte option" where
  "byteAt buffer i = (if i < length buffer then Some (buffer ! i) else None)"

text \<open>An operand of the bitwise \<open>&\<close>: \<open>undefined\<close> converts to 0.\<close>

definition toInt32 :: "byte option \<Rightarrow> byte" where
  "toInt32 v = (case v of None \<Rightarrow> 0 | Some b \<Rightarrow> b)"

definition check :: "bytes \<Rightarrow> byte list \<Rightarrow> nat \<Rightarrow> byte list option \<Rightarrow> bool" where
  "check buffer header offset mask' =
     list_all
       (\<lambda>i. case mask' of
               Some m \<Rightarrow> header ! i = (toInt32 (byteAt m i) AND toInt32 (byteAt buffer (i + offset)))
             | None \<Rightarrow> Some (header ! i) = byteAt buffer (i + offset))
       [0..<length header]"

definition stringToBytes :: "string \<Rightarrow> byte list" where
  "stringToBytes s = map (\<lambda>character. of_char character) s"

definition checkString :: "bytes \<Rightarrow> string \<Rightarrow> nat \<Rightarrow> byte list option \<Rightarrow> bool" where
  "checkString buffer header offset mask' = check buffer (stringToBytes header) offset mask'"

text \<open>\<open>array.slice(start, end)\<close> for \<open>0 \<le> start \<le> end\<close>, then \<open>String.fromCodePoint\<close>.\<close>

definition uint8ArrayUtf8ByteString :: "bytes \<Rightarrow> nat \<Rightarrow> nat \<Rightarrow> string" where
  "uint8ArrayUtf8ByteString array start end' =
     map (\<lambda>b. char_of (unat b)) (take (end' - start) (drop start array))"

text \<open>\<open>String.prototype.replace\<close> with a string pattern: the first occurrence only.\<close>

fun replaceFirst :: "char \<Rightarrow> char \<Rightarrow> string \<Rightarrow> string" where
  "replaceFirst a b [] = []"
| "replaceFirst a b (c # cs) = (if c = a then b # cs else c # replaceFirst a b cs)"

text \<open>The white space and line terminators of ECMAScript below code unit 256.\<close>

definition isWhiteSpace :: "char \<Rightarrow> bool" where
  "isWhiteSpace c \<longleftrightarrow> of_char c \<in> {0x09, 0x0A, 0x0B, 0x0C, 0x0D, 0x20, 0xA0 :: nat}"

definition trim :: "string \<Rightarrow> string" where
  "trim s = rev (dropWhile isWhiteSpace (rev (dropWhile isWhiteSpace s)))"

text \<open>
  \<open>findIndex\<close> of a typed array of length \<open>n\<close>, its callback reading the index only: the
  first index that satisfies it, or -1.
\<close>

definition findIndex :: "nat \<Rightarrow> (nat \<Rightarrow> bool) \<Rightarrow> int" where
  "findIndex n P = (case find P [0..<n] of None \<Rightarrow> - 1 | Some i \<Rightarrow> int i)"

text \<open>
  \<open>TypedArray.prototype.subarray(begin, end)\<close>: a negative index counts from the end, and
  both are clamped to the array.
\<close>

definition relativeIndex :: "int \<Rightarrow> int \<Rightarrow> int" where
  "relativeIndex len rel = (if rel < 0 then max (len + rel) 0 else min rel len)"

definition subarray :: "bytes \<Rightarrow> int \<Rightarrow> int \<Rightarrow> bytes" where
  "subarray buffer begin' end' =
     (let len = int (length buffer);
          beginIndex = relativeIndex len begin';
          endIndex = relativeIndex len end'
      in take (nat (endIndex - beginIndex)) (drop (nat beginIndex) buffer))"

text \<open>The four bytes of a chunk type at index \<open>i\<close>, as both callbacks test them.\<close>

definition chunkAt :: "bytes \<Rightarrow> nat \<Rightarrow> byte \<Rightarrow> byte \<Rightarrow> byte \<Rightarrow> byte \<Rightarrow> bool" where
  "chunkAt b i b0 b1 b2 b3 \<longleftrightarrow>
     byteAt b i = Some b0 \<and> byteAt b (i + 1) = Some b1 \<and>
     byteAt b (i + 2) = Some b2 \<and> byteAt b (i + 3) = Some b3"

definition firstImageDataChunkIndex :: "bytes \<Rightarrow> int" where
  "firstImageDataChunkIndex buffer =
     findIndex (length buffer) (\<lambda>i. i \<ge> 33 \<and> chunkAt buffer i 0x49 0x44 0x41 0x54)"

text \<open>The block under the PNG signature check.\<close>

definition pngOrApng :: "bytes \<Rightarrow> fileType" where
  "pngOrApng buffer =
     (let startIndex = 33;
          sliced = subarray buffer startIndex (firstImageDataChunkIndex buffer)
      in if findIndex (length sliced) (\<lambda>i. chunkAt sliced i 0x61 0x63 0x54 0x4c) \<ge> 0
         then \<lparr>ext = ''apng'', mime = ''image/apng''\<rparr>
         else \<lparr>ext = ''png'', mime = ''image/png''\<rparr>)"

text \<open>The \<open>switch\<close> over the major brand of an \<open>ftyp\<close> box; \<open>None\<close> falls through.\<close>

definition brandFileType :: "string \<Rightarrow> fileType option" where
  "brandFileType brandMajor =
     (if brandMajor = ''avif'' then Some \<lparr>ext = ''avif'', mime = ''image/avif''\<rparr>
      else if brandMajor = ''mif1'' then Some \<lparr>ext = ''heic'', mime = ''image/heif''\<rparr>
      else if brandMajor = ''msf1'' then Some \<lparr>ext = ''heic'', mime = ''image/heif-sequence''\<rparr>
      else if brandMajor = ''heic'' \<or> brandMajor = ''heix''
        then Some \<lparr>ext = ''heic'', mime = ''image/heic''\<rparr>
      else if brandMajor = ''hevc'' \<or> brandMajor = ''hevx''
        then Some \<lparr>ext = ''heic'', mime = ''image/heic-sequence''\<rparr>
      else None)"

definition ftypFileType :: "bytes \<Rightarrow> fileType option" where
  "ftypFileType buffer =
     (if checkString buffer ''ftyp'' 4 None \<and> toInt32 (byteAt buffer 8) AND 0x60 \<noteq> 0x00
      then brandFileType
             (trim (replaceFirst (CHR 0x00) (CHR '' '') (uint8ArrayUtf8ByteString buffer 8 12)))
      else None)"

text \<open>The JPEG-2000 family; \<open>None\<close> falls through.\<close>

definition jpeg2000FileType :: "bytes \<Rightarrow> fileType option" where
  "jpeg2000FileType buffer =
     (if check buffer [0x00, 0x00, 0x00, 0x0c, 0x6a, 0x50, 0x20, 0x20, 0x0d, 0x0a, 0x87, 0x0a] 0 None
      then
        if check buffer [0x6a, 0x70, 0x32, 0x20] 20 None
          then Some \<lparr>ext = ''jp2'', mime = ''image/jp2''\<rparr>
        else if check buffer [0x6a, 0x70, 0x78, 0x20] 20 None
          then Some \<lparr>ext = ''jpx'', mime = ''image/jpx''\<rparr>
        else if check buffer [0x6a, 0x70, 0x6d, 0x20] 20 None
          then Some \<lparr>ext = ''jpm'', mime = ''image/jpm''\<rparr>
        else if check buffer [0x6d, 0x6a, 0x70, 0x32] 20 None
          then Some \<lparr>ext = ''mj2'', mime = ''image/mj2''\<rparr>
        else None
      else None)"

text \<open>The checks after the \<open>ftyp\<close> block, in the source's order.\<close>

definition sniffTail :: "bytes \<Rightarrow> fileType option" where
  "sniffTail buffer =
     (if check buffer [0x00, 0x00, 0x01, 0x00] 0 None
        then Some \<lparr>ext = ''ico'', mime = ''image/x-icon''\<rparr>
      else if check buffer [0x00, 0x00, 0x02, 0x00] 0 None
        then Some \<lparr>ext = ''cur'', mime = ''image/x-icon''\<rparr>
      else if check buffer [0x42, 0x50, 0x47, 0xfb] 0 None
        then Some \<lparr>ext = ''bpg'', mime = ''image/bpg''\<rparr>
      else case jpeg2000FileType buffer of
        Some t \<Rightarrow> Some t
      | None \<Rightarrow>
          if check buffer [0xff, 0x0a] 0 None \<or>
             check buffer [0x00, 0x00, 0x00, 0x0c, 0x4a, 0x58, 0x4c, 0x20, 0x0d, 0x0a, 0x87, 0x0a] 0 None
            then Some \<lparr>ext = ''jxl'', mime = ''image/jxl''\<rparr>
          else if check buffer [0xab, 0x4b, 0x54, 0x58, 0x20, 0x31, 0x31, 0xbb, 0x0d, 0x0a, 0x1a, 0x0a] 0 None
            then Some \<lparr>ext = ''ktx'', mime = ''image/ktx''\<rparr>
          else None)"

text \<open>The raw camera formats, TIFF and the checks up to the \<open>ftyp\<close> block.\<close>

definition sniffRaw :: "bytes \<Rightarrow> fileType option" where
  "sniffRaw buffer =
     (if (check buffer [0x49, 0x49, 0x2a, 0x0] 0 None \<or> check buffer [0x4d, 0x4d, 0x0, 0x2a] 0 None) \<and>
         check buffer [0x43, 0x52] 8 None
        then Some \<lparr>ext = ''cr2'', mime = ''image/x-canon-cr2''\<rparr>
      else if check buffer [0x49, 0x49, 0x52, 0x4f, 0x08, 0x00, 0x00, 0x00, 0x18] 0 None
        then Some \<lparr>ext = ''orf'', mime = ''image/x-olympus-orf''\<rparr>
      else if check buffer [0x49, 0x49, 0x2a, 0x00] 0 None \<and>
              (check buffer [0x10, 0xfb, 0x86, 0x01] 4 None \<or> check buffer [0x08, 0x00, 0x00, 0x00] 4 None) \<and>
              check buffer
                [0x00, 0xfe, 0x00, 0x04, 0x00, 0x01, 0x00, 0x00, 0x00, 0x01, 0x00, 0x00, 0x00, 0x03, 0x01]
                9 None
        then Some \<lparr>ext = ''arw'', mime = ''image/x-sony-arw''\<rparr>
      else if check buffer [0x49, 0x49, 0x2a, 0x00, 0x08, 0x00, 0x00, 0x00] 0 None \<and>
              (check buffer [0x2d, 0x00, 0xfe, 0x00] 8 None \<or> check buffer [0x27, 0x00, 0xfe, 0x00] 8 None)
        then Some \<lparr>ext = ''dng'', mime = ''image/x-adobe-dng''\<rparr>
      else if check buffer [0x49, 0x49, 0x2a, 0x00] 0 None \<and> check buffer [0x1c, 0x00, 0xfe, 0x00] 8 None
        then Some \<lparr>ext = ''nef'', mime = ''image/x-nikon-nef''\<rparr>
      else if check buffer [0x49, 0x49, 0x55, 0x00, 0x18, 0x00, 0x00, 0x00, 0x88, 0xe7, 0x74, 0xd8] 0 None
        then Some \<lparr>ext = ''rw2'', mime = ''image/x-panasonic-rw2''\<rparr>
      else if checkString buffer ''FUJIFILMCCD-RAW'' 0 None
        then Some \<lparr>ext = ''raf'', mime = ''image/x-fujifilm-raf''\<rparr>
      else if check buffer [0x49, 0x49, 0x2a, 0x0] 0 None \<or> check buffer [0x4d, 0x4d, 0x0, 0x2a] 0 None
        then Some \<lparr>ext = ''tif'', mime = ''image/tiff''\<rparr>
      else if check buffer [0x42, 0x4d] 0 None
        then Some \<lparr>ext = ''bmp'', mime = ''image/bmp''\<rparr>
      else if check buffer [0x49, 0x49, 0xbc] 0 None
        then Some \<lparr>ext = ''jxr'', mime = ''image/vnd.ms-photo''\<rparr>
      else if check buffer [0x38, 0x42, 0x50, 0x53] 0 None
        then Some \<lparr>ext = ''psd'', mime = ''image/vnd.adobe.photoshop''\<rparr>
      else case ftypFileType buffer of
        Some t \<Rightarrow> Some t
      | None \<Rightarrow> sniffTail buffer)"

text \<open>
  The body of \<open>fileTypeFromBuffer\<close> once \<open>buffer\<close> is a \<open>Uint8Array\<close>; \<open>None\<close> is the
  \<open>undefined\<close> it returns when nothing matches.
\<close>

definition sniff :: "bytes \<Rightarrow> fileType option" where
  "sniff buffer =
     (if \<not> length buffer > 1 then None
      else if check buffer [0xff, 0xd8, 0xff] 0 None
        then Some \<lparr>ext = ''jpg'', mime = ''image/jpeg''\<rparr>
      else if check buffer [0x89, 0x50, 0x4e, 0x47, 0x0d, 0x0a, 0x1a, 0x0a] 0 None
        then Some (pngOrApng buffer)
      else if check buffer [0x47, 0x49, 0x46] 0 None
        then Some \<lparr>ext = ''gif'', mime = ''image/gif''\<rparr>
      else if check buffer [0x57, 0x45, 0x42, 0x50] 8 None
        then Some \<lparr>ext = ''webp'', mime = ''image/webp''\<rparr>
      else if check buffer [0x46, 0x4c, 0x49, 0x46] 0 None
        then Some \<lparr>ext = ''flif'', mime = ''image/flif''\<rparr>
      else sniffRaw buffer)"

definition fileTypeFromBuffer :: "input \<Rightarrow> error + fileType option" where
  "fileTypeFromBuffer input =
     (case input of
        NotBinary \<Rightarrow>
          Inl (TypeError ''Expected the input argument to be of type Uint8Array or Buffer or ArrayBuffer'')
      | Uint8Array buffer \<Rightarrow> Inr (sniff buffer)
      | ArrayBuffer contents \<Rightarrow> Inr (sniff contents)
      | Buffer buffer \<Rightarrow> Inr (sniff buffer))"

text \<open>
  A PNG file cut off after its animation control chunk: the signature, 25 bytes in the
  place of the IHDR chunk, \<open>acTL\<close> at offset 33 and one more byte. It holds no \<open>IDAT\<close>.
\<close>

definition pngSignature :: bytes where
  "pngSignature = [0x89, 0x50, 0x4e, 0x47, 0x0d, 0x0a, 0x1a, 0x0a]"

definition truncatedApng :: bytes where
  "truncatedApng = pngSignature @ replicate 25 0x00 @ [0x61, 0x63, 0x54, 0x4c, 0x00]"

section \<open>The bounded task scheduler\<close>

text \<open>
  A task is a function that returns a promise (the type \<open>Task\<close> of the source); what
  matters of it here is how that promise settles. The \<open>limit\<close> argument is any JavaScript
  value, an integer or not; \<open>tasks\<close> is an array, and an element of it is a function or
  not.
\<close>

datatype ('a, 'e) task = Fulfils 'a | Rejects 'e

datatype limitArgument = Integer int | NotAnInteger

datatype 'f taskArgument = Function 'f | NotAFunction

text \<open>
  The promise that \<open>throttleAll\<close> returns. It resolves with the \<open>result\<close> array, a
  JavaScript array that may have holes (\<open>None\<close>).
\<close>

datatype ('a, 'e) promise = Pending | Resolved "'a option list" | Rejected 'e

text \<open>
  The state the executor's closure holds: \<open>result\<close>, the position of the \<open>entries\<close>
  iterator and \<open>tasksFulfilled\<close>; with it, the indices of the tasks that were called and
  whose promise has not settled yet (in the order of the calls), and the returned promise.
\<close>

record ('a, 'e) scheduler =
  result :: "'a option list"
  entries :: nat
  tasksFulfilled :: nat
  inFlight :: "nat list"
  promise :: "('a, 'e) promise"

text \<open>\<open>resolve\<close> and \<open>reject\<close> settle the promise once; later calls change nothing.\<close>

definition resolve :: "'a option list \<Rightarrow> ('a, 'e) scheduler \<Rightarrow> ('a, 'e) scheduler" where
  "resolve r s = (case promise s of Pending \<Rightarrow> s\<lparr>promise := Resolved r\<rparr> | _ \<Rightarrow> s)"

definition reject :: "'e \<Rightarrow> ('a, 'e) scheduler \<Rightarrow> ('a, 'e) scheduler" where
  "reject e s = (case promise s of Pending \<Rightarrow> s\<lparr>promise := Rejected e\<rparr> | _ \<Rightarrow> s)"

text \<open>\<open>result[index] = taskResult\<close>: an index past the end extends the array with holes.\<close>

definition assignIndex :: "'a option list \<Rightarrow> nat \<Rightarrow> 'a \<Rightarrow> 'a option list" where
  "assignIndex xs index v =
     (if index < length xs then xs[index := Some v]
      else xs @ replicate (index - length xs) None @ [Some v])"

text \<open>
  The closure \<open>next\<close>. When the iterator is done it resolves if every task has fulfilled;
  otherwise it takes the next entry and calls the task, which is in flight from then on.
\<close>

definition nextTask :: "('a, 'e) task list \<Rightarrow> ('a, 'e) scheduler \<Rightarrow> ('a, 'e) scheduler" where
  "nextTask tasks s =
     (if entries s \<ge> length tasks
      then (if tasksFulfilled s = length tasks then resolve (result s) s else s)
      else s\<lparr>entries := Suc (entries s), inFlight := inFlight s @ [entries s]\<rparr>)"

definition onFulfilled ::
  "('a, 'e) task list \<Rightarrow> nat \<Rightarrow> 'a \<Rightarrow> ('a, 'e) scheduler \<Rightarrow> ('a, 'e) scheduler" where
  "onFulfilled tasks index taskResult s =
     nextTask tasks
       (s\<lparr>result := assignIndex (result s) index taskResult,
          tasksFulfilled := tasksFulfilled s + 1\<rparr>)"

text \<open>
  One turn of the event loop: the promise of the in-flight task \<open>index\<close> settles and the
  reaction registered by \<open>task().then(onFulfilled, reject)\<close> runs. Nothing happens for an
  index that is not in flight.
\<close>

definition settle :: "('a, 'e) task list \<Rightarrow> nat \<Rightarrow> ('a, 'e) scheduler \<Rightarrow> ('a, 'e) scheduler" where
  "settle tasks index s =
     (if index \<in> set (inFlight s) \<and> index < length tasks
      then
        (let s' = s\<lparr>inFlight := remove1 index (inFlight s)\<rparr>
         in case tasks ! index of
              Fulfils taskResult \<Rightarrow> onFulfilled tasks index taskResult s'
            | Rejects e \<Rightarrow> reject e s')
      else s)"

text \<open>The executor of the promise: the closure state, then \<open>limit\<close> calls of \<open>next\<close>.\<close>

definition executor :: "nat \<Rightarrow> ('a, 'e) task list \<Rightarrow> ('a, 'e) scheduler" where
  "executor limit tasks =
     ((nextTask tasks) ^^ limit)
       \<lparr>result = [], entries = 0, tasksFulfilled = 0, inFlight = [], promise = Pending\<rparr>"

definition isFunction :: "'f taskArgument \<Rightarrow> bool" where
  "isFunction t = (case t of Function _ \<Rightarrow> True | NotAFunction \<Rightarrow> False)"

fun callables :: "'f taskArgument list \<Rightarrow> 'f list" where
  "callables [] = []"
| "callables (Function f # ts) = f # callables ts"
| "callables (NotAFunction # ts) = callables ts"

text \<open>
  \<open>throttleAll\<close> up to the point where it returns the promise: the two argument checks
  throw, otherwise the executor has run.
\<close>

definition throttleAll ::
  "limitArgument \<Rightarrow> ('a, 'e) task taskArgument list \<Rightarrow> error + ('a, 'e) scheduler" where
  "throttleAll limit tasks =
     (case limit of
        NotAnInteger \<Rightarrow> Inl (TypeError ''Expected 'limit' to be a finite number > 0'')
      | Integer l \<Rightarrow>
          if l < 1 then Inl (TypeError ''Expected 'limit' to be a finite number > 0'')
          else if \<not> list_all isFunction tasks
            then Inl (TypeError ''Expected 'tasks' to be a list of functions returning a promise'')
          else Inr (executor (nat l) (callables tasks)))"

text \<open>
  What happens after \<open>throttleAll\<close> has returned: the task promises settle in some order.
  \<open>run\<close> plays a completion order; \<open>validOrder\<close> says that every index in it is in flight
  when its turn comes. A task whose promise has not settled (yet, or ever) is an index that
  the order does not name.
\<close>

fun run :: "('a, 'e) task list \<Rightarrow> nat list \<Rightarrow> ('a, 'e) scheduler \<Rightarrow> ('a, 'e) scheduler" where
  "run tasks [] s = s"
| "run tasks (i # order) s = run tasks order (settle tasks i s)"

fun validOrder :: "('a, 'e) task list \<Rightarrow> nat list \<Rightarrow> ('a, 'e) scheduler \<Rightarrow> bool" where
  "validOrder tasks [] s = True"
| "validOrder tasks (i # order) s \<longleftrightarrow>
     i \<in> set (inFlight s) \<and> validOrder tasks order (settle tasks i s)"

section \<open>Invariants of the scheduler\<close>

text \<open>
  What holds of every state the scheduler reaches: the iterator stays within the task list,
  the tasks in flight are distinct tasks that were taken from it, at most \<open>limit\<close> of them,
  each fulfilment was counted once, and the promise is settled only for a reason.
\<close>

definition wellFormed :: "nat \<Rightarrow> ('a, 'e) task list \<Rightarrow> ('a, 'e) scheduler \<Rightarrow> bool" where
  "wellFormed limit tasks s \<longleftrightarrow>
     entries s \<le> length tasks \<and> distinct (inFlight s) \<and> (\<forall>i \<in> set (inFlight s). i < entries s) \<and>
     length (inFlight s) \<le> limit \<and> tasksFulfilled s + length (inFlight s) \<le> entries s \<and>
     (\<forall>r. promise s = Resolved r \<longrightarrow> tasksFulfilled s = length tasks) \<and>
     (\<forall>e. promise s = Rejected e \<longrightarrow> Rejects e \<in> set tasks)"

text \<open>The returned promise has been rejected: some task has failed.\<close>

definition rejected :: "('a, 'e) scheduler \<Rightarrow> bool" where
  "rejected s = (case promise s of Rejected _ \<Rightarrow> True | _ \<Rightarrow> False)"

text \<open>
  What holds in addition as long as no task has failed: every task taken from the iterator
  is in flight or has fulfilled and left its value in its slot of \<open>result\<close>, the slots are
  saturated while tasks are queued, and the promise is resolved exactly when all are done.
\<close>

definition clean :: "nat \<Rightarrow> ('a, 'e) task list \<Rightarrow> ('a, 'e) scheduler \<Rightarrow> bool" where
  "clean limit tasks s \<longleftrightarrow>
     tasksFulfilled s + length (inFlight s) = entries s \<and>
     (entries s < length tasks \<longrightarrow> length (inFlight s) = limit) \<and>
     length (result s) \<le> entries s \<and>
     (\<forall>i<entries s. i \<notin> set (inFlight s) \<longrightarrow>
        (\<exists>v. tasks ! i = Fulfils v \<and> i < length (result s) \<and> result s ! i = Some v)) \<and>
     promise s = (if tasksFulfilled s = length tasks then Resolved (result s) else Pending)"

definition invariant :: "nat \<Rightarrow> ('a, 'e) task list \<Rightarrow> ('a, 'e) scheduler \<Rightarrow> bool" where
  "invariant limit tasks s \<longleftrightarrow> wellFormed limit tasks s \<and> (rejected s \<or> clean limit tasks s)"

text \<open>Strictly sequential execution: at most the task taken last is in flight.\<close>

definition sequential :: "('a, 'e) scheduler \<Rightarrow> bool" where
  "sequential s \<longleftrightarrow> inFlight s = [] \<or> (0 < entries s \<and> inFlight s = [entries s - 1])"

section \<open>Work items\<close>

text \<open>
  The adapters push to the \<open>warnings\<close> and \<open>errors\<close> arrays of the item they are given and
  build new arrays for the item they return, so the arrays live in a store: a reference is
  an index into the list of arrays allocated so far, and a new array gets the next index.
  An issue is an \<open>Error\<close> object, kept by its message. The other fields of an item are never
  written by the adapters and are kept by value.
\<close>

type_synonym issue = string
type_synonym ref = nat
type_synonym store = "issue list list"

datatype infoValue = Flag bool | Number int | Names "string list"

type_synonym assetInfo = "string \<rightharpoonup> infoValue"

record WorkerResult =
  filename :: string
  data :: bytes
  warnings :: ref
  errors :: ref
  info :: "assetInfo option"

definition deref :: "store \<Rightarrow> ref \<Rightarrow> issue list" where
  "deref h r = (if r < length h then h ! r else [])"

text \<open>\<open>array.push(issue)\<close>.\<close>

definition push :: "ref \<Rightarrow> issue \<Rightarrow> store \<Rightarrow> store" where
  "push r issue h = (if r < length h then h[r := h ! r @ [issue]] else h)"

text \<open>\<open>[...array]\<close>: a new array with the same elements.\<close>

definition spreadCopy :: "ref \<Rightarrow> store \<Rightarrow> ref \<times> store" where
  "spreadCopy r h = (length h, h @ [deref h r])"

text \<open>\<open>{...original.info}\<close>: the entries of \<open>info\<close>, none when it is \<open>undefined\<close>.\<close>

definition spreadInfo :: "assetInfo option \<Rightarrow> assetInfo" where
  "spreadInfo i = (case i of None \<Rightarrow> Map.empty | Some m \<Rightarrow> m)"

text \<open>
  \<open>...(original.info?.[key] ?? [])\<close> inside an array literal: the names of a list; a
  boolean or a number is not iterable and the spread throws.
\<close>

definition spreadNames :: "assetInfo option \<Rightarrow> string \<Rightarrow> error + string list" where
  "spreadNames i key =
     (case spreadInfo i key of
        None \<Rightarrow> Inr []
      | Some (Names names) \<Rightarrow> Inr names
      | Some _ \<Rightarrow> Inl (TypeError ''Spread syntax requires ...iterable[Symbol.iterator] to be a function''))"

text \<open>What an adapter gives back: a thrown error or the returned value, and the store.\<close>

type_synonym adapterResult = "(error + WorkerResult option) \<times> store"

section \<open>\<open>isAbsoluteURL\<close>\<close>

definition isLetter :: "char \<Rightarrow> bool" where
  "isLetter c \<longleftrightarrow>
     (of_char (CHR ''a'') \<le> (of_char c :: nat) \<and> (of_char c :: nat) \<le> of_char (CHR ''z'')) \<or>
     (of_char (CHR ''A'') \<le> (of_char c :: nat) \<and> (of_char c :: nat) \<le> of_char (CHR ''Z''))"

definition isDigit :: "char \<Rightarrow> bool" where
  "isDigit c \<longleftrightarrow> of_char (CHR ''0'') \<le> (of_char c :: nat) \<and> (of_char c :: nat) \<le> of_char (CHR ''9'')"

text \<open>The class \<open>[a-zA-Z\d+\-.]\<close>.\<close>

definition schemeChar :: "char \<Rightarrow> bool" where
  "schemeChar c \<longleftrightarrow> isLetter c \<or> isDigit c \<or> c = CHR ''+'' \<or> c = CHR ''-'' \<or> c = CHR ''.''"

text \<open>\<open>[a-zA-Z\d+\-.]*?:\<close> matched at the head of a string: lazily, the colon is tried first.\<close>

fun schemeRest :: "string \<Rightarrow> bool" where
  "schemeRest [] = False"
| "schemeRest (c # cs) = (c = CHR '':'' \<or> (schemeChar c \<and> schemeRest cs))"

definition ABSOLUTE_URL_REGEX :: "string \<Rightarrow> bool" where
  "ABSOLUTE_URL_REGEX url = (case url of [] \<Rightarrow> False | c # cs \<Rightarrow> isLetter c \<and> schemeRest cs)"

definition WINDOWS_PATH_REGEX :: "string \<Rightarrow> bool" where
  "WINDOWS_PATH_REGEX url =
     (case url of c1 # c2 # c3 # _ \<Rightarrow> isLetter c1 \<and> c2 = CHR '':'' \<and> c3 = backslash | _ \<Rightarrow> False)"

definition POSIX_PATH_REGEX :: "string \<Rightarrow> bool" where
  "POSIX_PATH_REGEX url = (case url of [] \<Rightarrow> False | c # _ \<Rightarrow> c = CHR ''/'')"

definition isAbsoluteURL :: "string \<Rightarrow> bool" where
  "isAbsoluteURL url \<longleftrightarrow> WINDOWS_PATH_REGEX url \<or> POSIX_PATH_REGEX url \<or> ABSOLUTE_URL_REGEX url"

section \<open>The runtime and the codec libraries\<close>

text \<open>
  \<open>String.prototype.toLowerCase\<close> on code units below 256: the ASCII capitals and the
  Latin-1 capitals (all of \<open>0xC0..0xDE\<close> but the multiplication sign).
\<close>

definition lowerChar :: "char \<Rightarrow> char" where
  "lowerChar c =
     (let n = of_char c :: nat
      in if (0x41 \<le> n \<and> n \<le> 0x5A) \<or> (0xC0 \<le> n \<and> n \<le> 0xDE \<and> n \<noteq> 0xD7) then char_of (n + 0x20) else c)"

definition toLowerCase :: "string \<Rightarrow> string" where
  "toLowerCase s = map lowerChar s"

text \<open>\<open>String.prototype.lastIndexOf\<close> for one character; \<open>None\<close> is -1.\<close>

fun lastIndexFrom :: "string \<Rightarrow> char \<Rightarrow> nat \<Rightarrow> nat option" where
  "lastIndexFrom s c 0 = None"
| "lastIndexFrom s c (Suc i) = (if s ! i = c then Some i else lastIndexFrom s c i)"

definition lastIndexOf :: "string \<Rightarrow> char \<Rightarrow> nat option" where
  "lastIndexOf s c = lastIndexFrom s c (length s)"

text \<open>
  The codec libraries and Node's \<open>path.extname\<close> are not part of the repository: they are
  parameters of the adapters. A function of a library that can throw (or whose promise can
  reject) returns the message of what it threw on the \<open>Inl\<close> side.

  \<^item> \<open>importPlugin name options\<close> is \<open>(await import(name)).default(options)\<close>.
  \<^item> \<open>imageminBuffer data plugins\<close> is \<open>imagemin.buffer(data, {plugins})\<close>; it returns a
    \<open>Buffer\<close> (imagemin 8) or a \<open>Uint8Array\<close> (imagemin 9).
  \<^item> \<open>squooshPreprocessors\<close> are the keys of \<open>squoosh.preprocessors\<close>, \<open>squooshEncoders\<close> the
    entries of \<open>squoosh.encoders\<close> with their extension; \<open>squooshPreprocess\<close> is
    \<open>image.preprocess\<close> (\<open>Some\<close> message when it rejects); \<open>squooshEncode\<close> is
    \<open>image.encode\<close> followed by the reads of \<open>image.encodedWith\<close> and \<open>image.decoded\<close>.
  \<^item> \<open>sharpMetadata animated data\<close> is \<open>sharp(data, {animated}).metadata()\<close>;
    \<open>sharpToBuffer data operations\<close> is the pipeline over \<open>data\<close> with the operations
    registered on it, run by \<open>toBuffer\<close>.
  \<^item> \<open>svgoOptimize text path encodeOptions\<close> is \<open>optimize(text, {path, ...encodeOptions})\<close>.

  An options object is kept as the list of its entries (the keys distinct); the options of
  one plugin or codec are opaque and kept as text.
\<close>

type_synonym options = string

datatype plugin = Plugin string "options option"

datatype encoded = AsBuffer bytes | AsUint8Array bytes

record SquooshEncoded =
  binary :: bytes
  extension :: string

record SquooshImage =
  encodedWith :: "(string \<times> SquooshEncoded) list"
  bitmapWidth :: int
  bitmapHeight :: int

datatype squooshValue = Preprocessor "bool option" options | EncodeOptions "(string \<times> options) list"

type_synonym SquooshOptions = "(string \<times> squooshValue) list"

record SharpMetadata =
  metadataWidth :: "int option"
  metadataHeight :: "int option"
  format :: "string option"

record SharpOutput =
  outputData :: bytes
  outputWidth :: int
  outputHeight :: int

record ResizeOptions =
  enabled :: "bool option"
  unit :: "string option"
  width :: "int option"
  height :: "int option"
  params :: options

datatype rotateOption = Angle int | Auto

datatype sharpOperation =
    Rotate "int option"
  | Resize "int option" "int option" options
  | ToFormat "string option" "options option"

record SharpOptions =
  resize :: "ResizeOptions option"
  rotate' :: "rotateOption option"
  sizeSuffix :: "(int \<Rightarrow> int \<Rightarrow> string) option"
  encodeOptions :: "(string \<times> options) list option"

record externals =
  extname :: "string \<Rightarrow> string"
  importPlugin :: "string \<Rightarrow> options option \<Rightarrow> string + plugin"
  imageminBuffer :: "bytes \<Rightarrow> plugin list \<Rightarrow> string + encoded"
  squooshPreprocessors :: "string list"
  squooshEncoders :: "(string \<times> string) list"
  squooshPreprocess :: "bytes \<Rightarrow> SquooshOptions \<Rightarrow> string option"
  squooshEncode :: "bytes \<Rightarrow> SquooshOptions \<Rightarrow> (string \<times> options) list option \<Rightarrow> string + SquooshImage"
  sharpMetadata :: "bool \<Rightarrow> bytes \<Rightarrow> string + SharpMetadata"
  sharpToBuffer :: "bytes \<Rightarrow> sharpOperation list \<Rightarrow> string + SharpOutput"
  svgoOptimize :: "bytes \<Rightarrow> string \<Rightarrow> options option \<Rightarrow> string + bytes"

text \<open>\<open>path.extname(filename).slice(1).toLowerCase()\<close>, the declared extension.\<close>

definition declaredExtension :: "externals \<Rightarrow> string \<Rightarrow> string" where
  "declaredExtension X name = toLowerCase (drop 1 (extname X name))"

text \<open>
  \<open>Error with '...': ...\<close>, the message under which an adapter records what its library
  threw.
\<close>

definition errorWith :: "string \<Rightarrow> string \<Rightarrow> issue" where
  "errorWith name message = ''Error with '' @ [CHR 0x27] @ name @ [CHR 0x27] @ '': '' @ message"

section \<open>The imagemin adapters\<close>

text \<open>
  An entry of \<open>plugins\<close>: a string, an array \<open>[name, options]\<close>, or anything else (kept as
  its JSON text).
\<close>

datatype pluginConfig = PluginName string | PluginArray string "options option" | PluginOther string

record ImageminOptions =
  plugins :: "pluginConfig list option"

definition startsWith :: "string \<Rightarrow> string \<Rightarrow> bool" where
  "startsWith s prefix \<longleftrightarrow> take (length prefix) s = prefix"

definition unknownPlugin :: "string \<Rightarrow> issue" where
  "unknownPlugin pluginName =
     (let pluginNameForError =
            (if startsWith pluginName ''imagemin'' then pluginName else ''imagemin-'' @ pluginName)
      in ''Unknown plugin: '' @ pluginNameForError @
         ''\<newline>\<newline>Did you forget to install the plugin?\<newline>You can install it with:\<newline>\<newline>$ npm install '' @
         pluginNameForError @ '' --save-dev\<newline>$ yarn add '' @ pluginNameForError @ '' --dev'')"

text \<open>The two nested \<open>try\<close> blocks that load one plugin.\<close>

definition requirePlugin :: "externals \<Rightarrow> string \<Rightarrow> options option \<Rightarrow> error + plugin" where
  "requirePlugin X pluginName pluginOptions =
     (let requiredPluginName =
            (if startsWith pluginName ''imagemin'' then pluginName else ''imagemin-'' @ pluginName)
      in case importPlugin X requiredPluginName pluginOptions of
           Inr requiredPlugin \<Rightarrow> Inr requiredPlugin
         | Inl _ \<Rightarrow>
             (case importPlugin X pluginName pluginOptions of
                Inr requiredPlugin \<Rightarrow> Inr requiredPlugin
              | Inl _ \<Rightarrow> Inl (Error (unknownPlugin pluginName))))"

text \<open>The loop over \<open>imageminConfig.plugins\<close>; the first throw ends it.\<close>

fun requirePlugins :: "externals \<Rightarrow> pluginConfig list \<Rightarrow> error + plugin list" where
  "requirePlugins X [] = Inr []"
| "requirePlugins X (PluginOther json # rest) =
     Inl (InvalidConfigError
       (''Invalid plugin configuration '' @ [CHR 0x27] @ json @ [CHR 0x27] @
        '', plugin configuration should be 'string' or '[string, object]'' @ [CHR 0x27, CHR 0x22]))"
| "requirePlugins X (PluginName pluginName # rest) =
     (case requirePlugin X pluginName None of
        Inl e \<Rightarrow> Inl e
      | Inr requiredPlugin \<Rightarrow>
          (case requirePlugins X rest of Inl e \<Rightarrow> Inl e | Inr ps \<Rightarrow> Inr (requiredPlugin # ps)))"
| "requirePlugins X (PluginArray pluginName pluginOptions # rest) =
     (case requirePlugin X pluginName pluginOptions of
        Inl e \<Rightarrow> Inl e
      | Inr requiredPlugin \<Rightarrow>
          (case requirePlugins X rest of Inl e \<Rightarrow> Inl e | Inr ps \<Rightarrow> Inr (requiredPlugin # ps)))"

definition imageminNormalizeConfig :: "externals \<Rightarrow> ImageminOptions option \<Rightarrow> error + plugin list" where
  "imageminNormalizeConfig X imageminConfig =
     (case imageminConfig of
        None \<Rightarrow> Inl (Error ''No plugins found for `imagemin`, please read documentation'')
      | Some config \<Rightarrow>
          (case plugins config of
             None \<Rightarrow> Inl (Error ''No plugins found for `imagemin`, please read documentation'')
           | Some [] \<Rightarrow> Inl (Error ''No plugins found for `imagemin`, please read documentation'')
           | Some ps \<Rightarrow> requirePlugins X ps))"

definition encodedInput :: "encoded \<Rightarrow> input" where
  "encodedInput r = (case r of AsBuffer b \<Rightarrow> Buffer b | AsUint8Array b \<Rightarrow> Uint8Array b)"

text \<open>\<open>!Buffer.isBuffer(result) ? Buffer.from(result) : result\<close>.\<close>

definition encodedBytes :: "encoded \<Rightarrow> bytes" where
  "encodedBytes r = (case r of AsBuffer b \<Rightarrow> b | AsUint8Array b \<Rightarrow> b)"

text \<open>
  \<open>const { ext: extOutput } = fileTypeFromBuffer(result) || {}\<close>: the sniffed extension,
  \<open>None\<close> when nothing matched.
\<close>

definition extOutputOf :: "encoded \<Rightarrow> error + string option" where
  "extOutputOf r =
     (case fileTypeFromBuffer (encodedInput r) of
        Inl e \<Rightarrow> Inl e
      | Inr None \<Rightarrow> Inr None
      | Inr (Some t) \<Rightarrow> Inr (Some (ext t)))"

text \<open>\<open>extOutput && extInput !== extOutput\<close>.\<close>

definition formatDiffers :: "string option \<Rightarrow> string \<Rightarrow> bool" where
  "formatDiffers extOutput extInput =
     (case extOutput of None \<Rightarrow> False | Some e \<Rightarrow> e \<noteq> [] \<and> extInput \<noteq> e)"

text \<open>
  The object an adapter returns on success: new arrays with the issues of the original,
  and the \<open>info\<close> of the original with the entries \<open>extra\<close>, the stage flag and the list
  of names under \<open>processedBy\<close>, the adapter's name first.
\<close>

definition processed ::
  "WorkerResult \<Rightarrow> string \<Rightarrow> bytes \<Rightarrow> (string \<times> infoValue) list \<Rightarrow> string \<Rightarrow> string \<Rightarrow> string \<Rightarrow>
   store \<Rightarrow> adapterResult" where
  "processed original newFilename newData extra processedFlag processedBy adapter h =
     (let (w, h1) = spreadCopy (warnings original) h;
          (e, h2) = spreadCopy (errors original) h1
      in case spreadNames (info original) processedBy of
           Inl thrown \<Rightarrow> (Inl thrown, h2)
         | Inr names \<Rightarrow>
             (Inr (Some
                \<lparr>filename = newFilename, data = newData, warnings = w, errors = e,
                 info = Some ((spreadInfo (info original) ++ map_of (rev extra))
                                (processedFlag \<mapsto> Flag True, processedBy \<mapsto> Names (adapter # names)))\<rparr>),
              h2))"

definition imageminGenerate :: "externals \<Rightarrow> WorkerResult \<Rightarrow> ImageminOptions option \<Rightarrow> store \<Rightarrow> adapterResult" where
  "imageminGenerate X original minimizerOptions h =
     (case imageminNormalizeConfig X minimizerOptions of
        Inl thrown \<Rightarrow> (Inl thrown, h)
      | Inr minimizerOptionsNormalized \<Rightarrow>
          (case imageminBuffer X (data original) minimizerOptionsNormalized of
             Inl message \<Rightarrow> (Inr None, push (errors original) (errorWith (filename original) message) h)
           | Inr result' \<Rightarrow>
               (case extOutputOf result' of
                  Inl thrown \<Rightarrow> (Inl thrown, h)
                | Inr extOutput \<Rightarrow>
                    (let extInput = declaredExtension X (filename original);
                         newFilename =
                           (if formatDiffers extOutput extInput
                            then replaceFileExtension (filename original) (the extOutput)
                            else filename original)
                     in processed original newFilename (encodedBytes result') []
                          ''generated'' ''generatedBy'' ''imagemin'' h))))"

definition useGenerateWarning :: "string \<Rightarrow> string \<Rightarrow> issue" where
  "useGenerateWarning extOutput name =
     [CHR 0x22] @ ''imageminMinify'' @ [CHR 0x22] @ '' function do not support generate to '' @
     [CHR 0x22] @ extOutput @ [CHR 0x22] @ '' from '' @ [CHR 0x22] @ name @ [CHR 0x22] @
     ''. Please use '' @ [CHR 0x22] @ ''imageminGenerate'' @ [CHR 0x22] @ '' function.''"

definition imageminMinify :: "externals \<Rightarrow> WorkerResult \<Rightarrow> ImageminOptions option \<Rightarrow> store \<Rightarrow> adapterResult" where
  "imageminMinify X original options' h =
     (case imageminNormalizeConfig X options' of
        Inl thrown \<Rightarrow> (Inl thrown, h)
      | Inr minimizerOptionsNormalized \<Rightarrow>
          (case imageminBuffer X (data original) minimizerOptionsNormalized of
             Inl message \<Rightarrow> (Inr None, push (errors original) (errorWith (filename original) message) h)
           | Inr result' \<Rightarrow>
               if \<not> isAbsoluteURL (filename original)
               then
                 (let extInput = declaredExtension X (filename original)
                  in case extOutputOf result' of
                       Inl thrown \<Rightarrow> (Inl thrown, h)
                     | Inr extOutput \<Rightarrow>
                         if formatDiffers extOutput extInput
                         then (Inr None,
                               push (warnings original)
                                 (useGenerateWarning (the extOutput) (filename original)) h)
                         else processed original (filename original) (encodedBytes result') []
                                ''minimized'' ''minimizedBy'' ''imagemin'' h)
               else processed original (filename original) (encodedBytes result') []
                      ''minimized'' ''minimizedBy'' ''imagemin'' h))"

section \<open>The squoosh adapters\<close>

text \<open>
  The image pool is left out: whether the adapter reuses the shared pool or creates and
  closes one of its own changes neither what it returns nor the item.
\<close>

definition enabledOf :: "squooshValue \<Rightarrow> bool option" where
  "enabledOf v = (case v of Preprocessor e _ \<Rightarrow> e | EncodeOptions _ \<Rightarrow> None)"

text \<open>The filter over \<open>Object.entries(squooshOptions)\<close>.\<close>

definition preprocEntries :: "externals \<Rightarrow> SquooshOptions \<Rightarrow> SquooshOptions" where
  "preprocEntries X squooshOptions =
     filter
       (\<lambda>(key, v). if key = ''resize'' \<and> enabledOf v = Some False then False
                    else key \<in> set (squooshPreprocessors X))
       squooshOptions"

text \<open>\<open>const { encodeOptions } = squooshOptions\<close>.\<close>

definition encodeOptionsOf :: "SquooshOptions \<Rightarrow> (string \<times> options) list option" where
  "encodeOptionsOf squooshOptions =
     (case map_of squooshOptions ''encodeOptions'' of
        Some (EncodeOptions codecs) \<Rightarrow> Some codecs
      | _ \<Rightarrow> None)"

definition noResultError :: "string \<Rightarrow> string \<Rightarrow> issue" where
  "noResultError library name =
     ''No result from '' @ [CHR 0x27] @ library @ [CHR 0x27] @ '' for '' @ [CHR 0x27] @ name @ [CHR 0x27] @
     '', please configure the 'encodeOptions' option to generate images''"

definition multipleValuesError :: "string \<Rightarrow> issue" where
  "multipleValuesError name =
     ''Multiple values for the 'encodeOptions' option is not supported for '' @
     [CHR 0x27] @ name @ [CHR 0x27] @ '', specify only one codec for the generator''"


text \<open>\<open>minifyOptions ?? {}\<close>.\<close>

definition squooshOptionsOf :: "SquooshOptions option \<Rightarrow> SquooshOptions" where
  "squooshOptionsOf minifyOptions = (case minifyOptions of None \<Rightarrow> [] | Some given \<Rightarrow> given)"

text \<open>
  \<open>if (preprocEntries.length > 0) await image.preprocess(...)\<close>: the message when the
  preprocessing rejects.
\<close>

definition preprocess :: "externals \<Rightarrow> WorkerResult \<Rightarrow> SquooshOptions \<Rightarrow> string option" where
  "preprocess X original entries' =
     (if length entries' > 0 then squooshPreprocess X (data original) entries' else None)"

definition squooshGenerate :: "externals \<Rightarrow> WorkerResult \<Rightarrow> SquooshOptions option \<Rightarrow> store \<Rightarrow> adapterResult" where
  "squooshGenerate X original minifyOptions h =
     (let squooshOptions = squooshOptionsOf minifyOptions;
          entries' = preprocEntries X squooshOptions
      in case preprocess X original entries' of
           Some message \<Rightarrow> (Inl (Error message), h)
         | None \<Rightarrow>
             (case squooshEncode X (data original) entries' (encodeOptionsOf squooshOptions) of
                Inl message \<Rightarrow>
                  (Inr None, push (errors original) (errorWith (filename original) message) h)
              | Inr image' \<Rightarrow>
                  if length (encodedWith image') = 0
                  then (Inr None, push (errors original) (noResultError ''squoosh'' (filename original)) h)
                  else if length (encodedWith image') > 1
                  then (Inr None, push (errors original) (multipleValuesError (filename original)) h)
                  else
                    (let output = snd (hd (encodedWith image'));
                         filename' = replaceFileExtension (filename original) (extension output)
                     in processed original filename' (binary output)
                          [(''width'', Number (bitmapWidth image')), (''height'', Number (bitmapHeight image'))]
                          ''generated'' ''generatedBy'' ''squoosh'' h)))"

text \<open>The loop that fills \<open>targets\<close> from \<open>Object.entries(encoders)\<close>.\<close>

definition squooshTargets :: "(string \<times> string) list \<Rightarrow> (string \<rightharpoonup> string)" where
  "squooshTargets encoders =
     fold
       (\<lambda>(codec, extension') targets.
          let extensionNormalized = toLowerCase extension'
          in (if extensionNormalized = ''jpg'' then targets(''jpeg'' \<mapsto> codec) else targets)
               (extensionNormalized \<mapsto> codec))
       encoders Map.empty"

text \<open>
  \<open>targets\<close> is a plain object, so reading it under a key the loop did not write finds what
  every object inherits. A declared extension is in lower case; the inherited properties
  with such a name are \<open>constructor\<close> (the function \<open>Object\<close>) and \<open>__proto__\<close> (the
  prototype object). Both are truthy, and where the code goes on to use one as a property
  key it is converted to the text given here.
\<close>

definition inheritedProperty :: "string \<Rightarrow> string option" where
  "inheritedProperty key =
     (if key = ''constructor'' then Some ''function Object() { [native code] }''
      else if key = ''__proto__'' then Some ''[object Object]''
      else None)"

text \<open>\<open>targets[ext]\<close>: \<open>None\<close> is \<open>undefined\<close>.\<close>

definition targetCodecOf :: "externals \<Rightarrow> WorkerResult \<Rightarrow> string option" where
  "targetCodecOf X original =
     (let ext' = declaredExtension X (filename original)
      in case squooshTargets (squooshEncoders X) ext' of
           Some codec \<Rightarrow> Some codec
         | None \<Rightarrow> inheritedProperty ext')"

text \<open>
  \<open>const { encodeOptions = {} } = squooshOptions\<close>, then the options under the target
  codec, the empty object when there are none.
\<close>

definition codecOptionsOf :: "SquooshOptions \<Rightarrow> string \<Rightarrow> options" where
  "codecOptionsOf squooshOptions targetCodec =
     (let encodeOptions' = (case encodeOptionsOf squooshOptions of None \<Rightarrow> [] | Some eo \<Rightarrow> eo)
      in case map_of encodeOptions' targetCodec of None \<Rightarrow> ''{}'' | Some o' \<Rightarrow> o')"

definition squooshMinify :: "externals \<Rightarrow> WorkerResult \<Rightarrow> SquooshOptions option \<Rightarrow> store \<Rightarrow> adapterResult" where
  "squooshMinify X original options' h =
     (case targetCodecOf X original of
           None \<Rightarrow> (Inr None, h)
         | Some targetCodec \<Rightarrow>
             if targetCodec = [] then (Inr None, h)
             else
               (let squooshOptions = squooshOptionsOf options';
                    entries' = preprocEntries X squooshOptions
                in case preprocess X original entries' of
                     Some message \<Rightarrow> (Inl (Error message), h)
                   | None \<Rightarrow>
                       (let codecOptions = codecOptionsOf squooshOptions targetCodec
                        in case squooshEncode X (data original) entries' (Some [(targetCodec, codecOptions)]) of
                             Inl message \<Rightarrow>
                               (Inr None, push (errors original) (errorWith (filename original) message) h)
                           | Inr image' \<Rightarrow>
                               (case map_of (encodedWith image') targetCodec of
                                  None \<Rightarrow>
                                    (Inl (TypeError ''Cannot destructure property 'binary' of undefined''), h)
                                | Some output \<Rightarrow>
                                    processed original (filename original) (binary output)
                                      [(''width'', Number (bitmapWidth image')),
                                       (''height'', Number (bitmapHeight image'))]
                                      ''minimized'' ''minimizedBy'' ''squoosh'' h))))"

section \<open>The sharp adapters\<close>

definition SHARP_GENERATE_FORMATS :: "(string \<times> string) list" where
  "SHARP_GENERATE_FORMATS =
     [(''avif'', ''avif''), (''gif'', ''gif''), (''heic'', ''heif''), (''heif'', ''heif''),
      (''j2c'', ''jp2''), (''j2k'', ''jp2''), (''jp2'', ''jp2''), (''jpeg'', ''jpeg''),
      (''jpg'', ''jpeg''), (''jpx'', ''jp2''), (''png'', ''png''), (''raw'', ''raw''),
      (''tif'', ''tiff''), (''tiff'', ''tiff''), (''webp'', ''webp''), (''svg'', ''svg'')]"

definition SHARP_MINIFY_FORMATS :: "(string \<times> string) list" where
  "SHARP_MINIFY_FORMATS =
     [(''avif'', ''avif''), (''gif'', ''gif''), (''heic'', ''heif''), (''heif'', ''heif''),
      (''j2c'', ''jp2''), (''j2k'', ''jp2''), (''jp2'', ''jp2''), (''jpeg'', ''jpeg''),
      (''jpg'', ''jpeg''), (''jpx'', ''jp2''), (''png'', ''png''), (''raw'', ''raw''),
      (''tif'', ''tiff''), (''tiff'', ''tiff''), (''webp'', ''webp'')]"

text \<open>\<open>Map.prototype.has\<close>.\<close>

definition has :: "(string \<times> string) list \<Rightarrow> string \<Rightarrow> bool" where
  "has m key \<longleftrightarrow> key \<in> set (map fst m)"

text \<open>\<open>!targetFormat\<close>: \<open>null\<close> and the empty string are falsy.\<close>

definition falsy :: "string option \<Rightarrow> bool" where
  "falsy targetFormat \<longleftrightarrow> targetFormat = None \<or> targetFormat = Some []"

text \<open>
  \<open>Math.ceil((metadata * percent) / 100)\<close> for integers whose product is below \<open>2^53\<close>,
  where the double arithmetic of the source is exact; a percentage with a fraction is not
  covered.
\<close>

definition percentOf :: "int \<Rightarrow> int \<Rightarrow> int" where
  "percentOf metadata percent = - ((- (metadata * percent)) div 100)"

text \<open>
  One side of a percentage resize: the parameter is replaced when it is a number and the
  metadata holds a finite positive number.
\<close>

definition resolvePercent :: "int option \<Rightarrow> int option \<Rightarrow> int option" where
  "resolvePercent param metadata =
     (case (param, metadata) of
        (Some percent, Some m) \<Rightarrow> if m > 0 then Some (percentOf m percent) else Some percent
      | _ \<Rightarrow> param)"

text \<open>The rotate step: the operations it registers on the pipeline.\<close>

definition rotateOperations :: "SharpOptions \<Rightarrow> sharpOperation list" where
  "rotateOperations minimizerOptions =
     (case rotate' minimizerOptions of
        Some (Angle angle) \<Rightarrow> [Rotate (Some angle)]
      | Some Auto \<Rightarrow> [Rotate None]
      | None \<Rightarrow> [])"

text \<open>The resize step; it throws when the metadata of a percentage resize cannot be read.\<close>

definition resizeOperations ::
  "externals \<Rightarrow> WorkerResult \<Rightarrow> SharpOptions \<Rightarrow> string + sharpOperation list" where
  "resizeOperations X original minimizerOptions =
     (case resize minimizerOptions of
        None \<Rightarrow> Inr []
      | Some r \<Rightarrow>
          (let enabled' = (case enabled r of None \<Rightarrow> True | Some b \<Rightarrow> b);
               unit' = (case unit r of None \<Rightarrow> ''px'' | Some u \<Rightarrow> u)
           in if enabled' \<and> (width r \<noteq> None \<or> height r \<noteq> None)
              then
                if unit' = ''percent''
                then
                  (case sharpMetadata X False (data original) of
                     Inl message \<Rightarrow> Inl message
                   | Inr originalMetadata \<Rightarrow>
                       Inr [Resize (resolvePercent (width r) (metadataWidth originalMetadata))
                                   (resolvePercent (height r) (metadataHeight originalMetadata))
                                   (params r)])
                else Inr [Resize (width r) (height r) (params r)]
              else Inr []))"

text \<open>
  The calls \<open>sharpTransform\<close> makes to sharp, in the order of the source: rotate, resize,
  the metadata read, \<open>toFormat\<close> with \<open>targetFormat ?? imageMetadata.format\<close> and the
  encode options under that format, and \<open>toBuffer\<close>. The result is the \<open>result\<close> of
  \<open>toBuffer\<close>, or the message of what was thrown.
\<close>

definition sharpSteps ::
  "externals \<Rightarrow> WorkerResult \<Rightarrow> SharpOptions \<Rightarrow> string option \<Rightarrow> string + SharpOutput" where
  "sharpSteps X original minimizerOptions targetFormat =
     (case resizeOperations X original minimizerOptions of
        Inl message \<Rightarrow> Inl message
      | Inr resizing \<Rightarrow>
          (case sharpMetadata X True (data original) of
             Inl message \<Rightarrow> Inl message
           | Inr imageMetadata \<Rightarrow>
               (let outputFormat = (case targetFormat of None \<Rightarrow> format imageMetadata | Some f \<Rightarrow> Some f);
                    encodeOptions' =
                      (case (encodeOptions minimizerOptions, outputFormat) of
                         (Some eo, Some f) \<Rightarrow> map_of eo f
                       | _ \<Rightarrow> None)
                in sharpToBuffer X (data original)
                     (rotateOperations minimizerOptions @ resizing @
                      [ToFormat outputFormat encodeOptions']))))"

text \<open>
  \<open>sharpTransform\<close>. Nothing in it catches what sharp throws: a failure of the metadata
  reads or of the pipeline (the constructor, \<open>rotate\<close>, \<open>resize\<close>, \<open>toFormat\<close> and
  \<open>toBuffer\<close>, all inside \<open>sharpToBuffer\<close>) rejects the promise and leaves the item as it
  was. In the rename step \<open>outputFormat\<close> is read only when \<open>targetFormat\<close> is truthy, and
  then it is \<open>targetFormat\<close>.
\<close>

definition sharpTransform ::
  "externals \<Rightarrow> WorkerResult \<Rightarrow> SharpOptions \<Rightarrow> string option \<Rightarrow> store \<Rightarrow> adapterResult" where
  "sharpTransform X original minimizerOptions targetFormat h =
     (let inputExt = declaredExtension X (filename original)
      in if (if falsy targetFormat then \<not> has SHARP_MINIFY_FORMATS inputExt
             else \<not> has SHARP_GENERATE_FORMATS inputExt)
         then
           (if \<not> falsy targetFormat
            then (Inr None,
                  push (errors original)
                    (errorWith (filename original) ''Input file has an unsupported format'') h)
            else (Inr None, h))
         else
           (case sharpSteps X original minimizerOptions targetFormat of
              Inl message \<Rightarrow> (Inl (Error message), h)
            | Inr result' \<Rightarrow>
                (let outputExt = (if \<not> falsy targetFormat then the targetFormat else inputExt);
                     sizeSuffix' =
                       (case sizeSuffix minimizerOptions of
                          Some f \<Rightarrow> f (outputWidth result') (outputHeight result')
                        | None \<Rightarrow> []);
                     filename' =
                       (case lastIndexOf (filename original) (CHR ''.'') of
                          Some dotIndex \<Rightarrow>
                            take dotIndex (filename original) @ sizeSuffix' @ ''.'' @ outputExt
                        | None \<Rightarrow> filename original);
                     processedFlag = (if \<not> falsy targetFormat then ''generated'' else ''minimized'');
                     processedBy = (if \<not> falsy targetFormat then ''generatedBy'' else ''minimizedBy'')
                 in processed original filename' (outputData result')
                      [(''width'', Number (outputWidth result')),
                       (''height'', Number (outputHeight result'))]
                      processedFlag processedBy ''sharp'' h)))"

text \<open>An options argument that is \<open>undefined\<close> stands for the empty object.\<close>

definition emptySharpOptions :: SharpOptions where
  "emptySharpOptions = \<lparr>resize = None, rotate' = None, sizeSuffix = None, encodeOptions = None\<rparr>"

text \<open>\<open>minimizerOptions ?? {}\<close> and \<open>Object.keys(sharpOptions.encodeOptions ?? {})\<close>.\<close>

definition sharpOptionsOf :: "SharpOptions option \<Rightarrow> SharpOptions" where
  "sharpOptionsOf minimizerOptions =
     (case minimizerOptions of None \<Rightarrow> emptySharpOptions | Some given \<Rightarrow> given)"

definition targetFormatsOf :: "SharpOptions \<Rightarrow> string list" where
  "targetFormatsOf sharpOptions =
     map fst (case encodeOptions sharpOptions of None \<Rightarrow> [] | Some eo \<Rightarrow> eo)"

definition sharpGenerate :: "externals \<Rightarrow> WorkerResult \<Rightarrow> SharpOptions option \<Rightarrow> store \<Rightarrow> adapterResult" where
  "sharpGenerate X original minimizerOptions h =
     (let sharpOptions = sharpOptionsOf minimizerOptions;
          targetFormats = targetFormatsOf sharpOptions
      in if length targetFormats = 0
         then (Inr None, push (errors original) (noResultError ''sharp'' (filename original)) h)
         else if length targetFormats > 1
         then (Inr None, push (errors original) (multipleValuesError (filename original)) h)
         else sharpTransform X original sharpOptions (Some (hd targetFormats)) h)"

definition sharpMinify :: "externals \<Rightarrow> WorkerResult \<Rightarrow> SharpOptions option \<Rightarrow> store \<Rightarrow> adapterResult" where
  "sharpMinify X original minimizerOptions h =
     sharpTransform X original (sharpOptionsOf minimizerOptions) None h"

section \<open>The svgo adapter\<close>

text \<open>
  The options argument is given by its \<open>encodeOptions\<close> entry, \<open>None\<close> when the argument or
  the entry is \<open>undefined\<close>.
\<close>

definition svgoMinify :: "externals \<Rightarrow> WorkerResult \<Rightarrow> options option \<Rightarrow> store \<Rightarrow> adapterResult" where
  "svgoMinify X original encodeOptions' h =
     (if toLowerCase (extname X (filename original)) \<noteq> ''.svg'' then (Inr None, h)
      else case svgoOptimize X (data original) (filename original) encodeOptions' of
             Inl message \<Rightarrow>
               (Inr None, push (errors original) (errorWith (filename original) message) h)
           | Inr result' \<Rightarrow>
               processed original (filename original) result' []
                 ''minimized'' ''minimizedBy'' ''svgo'' h)"

section \<open>Reading an adapter's result\<close>

text \<open>The item an adapter returned, if it returned one; whether it returned \<open>null\<close>.\<close>

definition returnedItem :: "adapterResult \<Rightarrow> WorkerResult option" where
  "returnedItem res = (case fst res of Inr (Some r) \<Rightarrow> Some r | _ \<Rightarrow> None)"

definition returnedNull :: "adapterResult \<Rightarrow> bool" where
  "returnedNull res = (case fst res of Inr None \<Rightarrow> True | _ \<Rightarrow> False)"

text \<open>The entry of the returned item's \<open>info\<close> under a key.\<close>

definition returnedInfo :: "adapterResult \<Rightarrow> string \<Rightarrow> infoValue option" where
  "returnedInfo res key = (case returnedItem res of Some r \<Rightarrow> spreadInfo (info r) key | None \<Rightarrow> None)"

text \<open>
  An item whose two arrays are alive in the store and are two arrays.
\<close>

definition validItem :: "store \<Rightarrow> WorkerResult \<Rightarrow> bool" where
  "validItem h item \<longleftrightarrow>
     warnings item < length h \<and> errors item < length h \<and> warnings item \<noteq> errors item"

text \<open>
  What the specification asks of the item \<open>r\<close> that an adapter returns for \<open>original\<close>, the
  store going from \<open>h\<close> to \<open>h'\<close>: its \<open>warnings\<close> and \<open>errors\<close> are two arrays that did not
  exist before and hold the issues of the original's; no array that existed has changed;
  and its \<open>info\<close> has the stage flag set, the adapter's name put before the names the
  original had under \<open>processedBy\<close>, the entries \<open>written\<close>, and every other entry of the
  original's \<open>info\<close>.
\<close>

definition carriedForward ::
  "WorkerResult \<Rightarrow> store \<Rightarrow> WorkerResult \<Rightarrow> store \<Rightarrow> string \<Rightarrow> string \<Rightarrow> string \<Rightarrow>
   (string \<times> infoValue) list \<Rightarrow> bool" where
  "carriedForward original h r h' adapter processedFlag processedBy written \<longleftrightarrow>
     length h \<le> warnings r \<and> length h \<le> errors r \<and> warnings r \<noteq> errors r \<and>
     warnings r < length h' \<and> errors r < length h' \<and>
     deref h' (warnings r) = deref h (warnings original) \<and>
     deref h' (errors r) = deref h (errors original) \<and>
     take (length h) h' = h \<and>
     (case info r of
        None \<Rightarrow> False
      | Some m \<Rightarrow>
          m processedFlag = Some (Flag True) \<and>
          (case spreadNames (info original) processedBy of
             Inl _ \<Rightarrow> False
           | Inr names \<Rightarrow> m processedBy = Some (Names (adapter # names))) \<and>
          list_all (\<lambda>(key, v). m key = Some v) written \<and>
          (\<forall>key. key \<notin> set (processedFlag # processedBy # map fst written) \<longrightarrow>
             m key = spreadInfo (info original) key))"

section \<open>A platform and libraries for the examples\<close>

text \<open>
  Node's \<open>path.posix.extname\<close>, which is \<open>path.extname\<close> on a POSIX platform: the scan from
  the end of the path with its five variables, then the test on what it found.
\<close>

record extnameState =
  startDot :: int
  startPart :: int
  end' :: int
  matchedSlash :: bool
  preDotState :: int

fun extnameScan :: "string \<Rightarrow> nat \<Rightarrow> extnameState \<Rightarrow> extnameState" where
  "extnameScan path 0 st = st"
| "extnameScan path (Suc i) st =
     (if path ! i = CHR ''/''
      then (if \<not> matchedSlash st then st\<lparr>startPart := int i + 1\<rparr> else extnameScan path i st)
      else
        (let st1 = (if end' st = - 1 then st\<lparr>matchedSlash := False, end' := int i + 1\<rparr> else st);
             st2 =
               (if path ! i = CHR ''.''
                then (if startDot st1 = - 1 then st1\<lparr>startDot := int i\<rparr>
                      else if preDotState st1 \<noteq> 1 then st1\<lparr>preDotState := 1\<rparr>
                      else st1)
                else if startDot st1 \<noteq> - 1 then st1\<lparr>preDotState := - 1\<rparr>
                else st1)
         in extnameScan path i st2))"

definition posixExtname :: "string \<Rightarrow> string" where
  "posixExtname path =
     (let st = extnameScan path (length path)
                 \<lparr>startDot = - 1, startPart = 0, end' = - 1, matchedSlash = True, preDotState = 0\<rparr>
      in if startDot st = - 1 \<or> end' st = - 1 \<or> preDotState st = 0 \<or>
            (preDotState st = 1 \<and> startDot st = end' st - 1 \<and> startDot st = startPart st + 1)
         then []
         else take (nat (end' st) - nat (startDot st)) (drop (nat (startDot st)) path))"

text \<open>
  Libraries to run the adapters on: an imagemin whose only plugin, \<open>imagemin-webp\<close>, turns
  every image into the WebP file \<open>webpFile\<close>; a squoosh with three encoders that encodes
  with each configured codec it knows; a sharp that reports a 100 by 80 PNG and returns an
  image of that size, or of the width and height a resize operation asks for; an svgo that
  returns its input.
\<close>

definition webpFile :: bytes where
  "webpFile = [0x52, 0x49, 0x46, 0x46, 0x1a, 0x00, 0x00, 0x00, 0x57, 0x45, 0x42, 0x50, 0x56, 0x50, 0x38, 0x4c]"

definition exampleEncoders :: "(string \<times> string) list" where
  "exampleEncoders = [(''mozjpeg'', ''jpg''), (''webp'', ''webp''), (''oxipng'', ''png'')]"

definition exampleSize :: "sharpOperation list \<Rightarrow> int \<times> int" where
  "exampleSize operations =
     fold
       (\<lambda>operation (w, h').
          case operation of
            Resize width' height' _ \<Rightarrow>
              (case width' of Some x \<Rightarrow> x | None \<Rightarrow> w, case height' of Some y \<Rightarrow> y | None \<Rightarrow> h')
          | _ \<Rightarrow> (w, h'))
       operations (100, 80)"

definition exampleExternals :: externals where
  "exampleExternals =
     \<lparr>extname = posixExtname,
      importPlugin =
        (\<lambda>name pluginOptions.
           if name = ''imagemin-webp'' then Inr (Plugin name pluginOptions)
           else Inl (''Cannot find package '' @ name)),
      imageminBuffer = (\<lambda>input plugins'. Inr (AsBuffer webpFile)),
      squooshPreprocessors = [''resize'', ''quant'', ''rotate''],
      squooshEncoders = exampleEncoders,
      squooshPreprocess = (\<lambda>input entries'. None),
      squooshEncode =
        (\<lambda>input entries' encodeOptions'.
           Inr \<lparr>encodedWith =
                  concat (map (\<lambda>(codec, codecOptions).
                                 case map_of exampleEncoders codec of
                                   None \<Rightarrow> []
                                 | Some e \<Rightarrow> [(codec, \<lparr>binary = input, extension = e\<rparr>)])
                              (case encodeOptions' of None \<Rightarrow> [] | Some eo \<Rightarrow> eo)),
                bitmapWidth = 100, bitmapHeight = 80\<rparr>),
      sharpMetadata =
        (\<lambda>animated input.
           Inr \<lparr>metadataWidth = Some 100, metadataHeight = Some 80, format = Some ''png''\<rparr>),
      sharpToBuffer =
        (\<lambda>input operations.
           Inr \<lparr>outputData = input, outputWidth = fst (exampleSize operations),
                outputHeight = snd (exampleSize operations)\<rparr>),
      svgoOptimize = (\<lambda>input path encodeOptions'. Inr input)\<rparr>"

text \<open>An item named \<open>name\<close> with one earlier warning, no error and no \<open>info\<close>, and its store.\<close>

definition exampleItem :: "string \<Rightarrow> WorkerResult" where
  "exampleItem name =
     \<lparr>filename = name, data = [0x89, 0x50, 0x4e, 0x47], warnings = 0, errors = 1, info = None\<rparr>"

definition exampleStore :: store where
  "exampleStore = [[''earlier warning''], []]"



text \<open>
  An item that imagemin has minimized before, with its size on record, and the options to
  scale it to half its width and height.
\<close>

definition measuredItem :: WorkerResult where
  "measuredItem =
     (exampleItem ''img.png'')
       \<lparr>info := Some [''immutable'' \<mapsto> Flag True, ''width'' \<mapsto> Number 100, ''height'' \<mapsto> Number 80,
                       ''minimized'' \<mapsto> Flag True, ''minimizedBy'' \<mapsto> Names [''imagemin'']]\<rparr>"

definition halfSize :: "SharpOptions option" where
  "halfSize =
     Some (emptySharpOptions
       \<lparr>resize := Some \<lparr>enabled = None, unit = Some ''percent'', width = Some 50, height = Some 50,
                         params = ''{}''\<rparr>\<rparr>)"


definition driveLetterName :: string where
  "driveLetterName = [CHR ''C'', CHR '':'', backslash] @ ''img.png''"

definition webpPlugin :: "ImageminOptions option" where
  "webpPlugin = Some \<lparr>plugins = Some [PluginName ''webp'']\<rparr>"

section \<open>Properties of \<open>replaceFileExtension\<close>\<close>

lemma dotIndexFrom_None_iff:
  "n \<le> length f \<Longrightarrow>
   dotIndexFrom f n = None \<longleftrightarrow>
   CHR ''.'' \<notin> set (takeWhile (\<lambda>c. c \<noteq> CHR ''/'' \<and> c \<noteq> backslash) (rev (take n f)))"
proof (induction n)
  case 0
  then show ?case by simp
next
  case (Suc n)
  then have split: "take (Suc n) f = take n f @ [f ! n]"
    by (simp add: take_Suc_conv_app_nth)
  from Suc show ?case
    by (simp add: split backslash_def)
qed

lemma replaceFileExtension_no_dot:
  assumes "CHR ''.'' \<notin> set (lastSegment f)"
  shows "replaceFileExtension f e = f"
proof -
  from assms have "dotIndexFrom f (length f) = None"
    using dotIndexFrom_None_iff [of "length f" f]
    by (simp add: lastSegment_def)
  then show ?thesis
    by (simp add: replaceFileExtension_def)
qed

text \<open>
  C9. \<open>replaceFileExtension("path/img.png", "webp")\<close> is \<open>"path/img.webp"\<close>, and a file name
  whose last path segment (the part after the last \<open>/\<close> or backslash) holds no dot is
  returned unchanged, whatever the new extension.
\<close>

theorem C9_replaceFileExtension:
  "replaceFileExtension ''path/img.png'' ''webp'' = ''path/img.webp'' \<and>
   (\<forall>f e. CHR ''.'' \<notin> set (lastSegment f) \<longrightarrow> replaceFileExtension f e = f)"
proof (intro conjI allI impI)
  show "replaceFileExtension ''path/img.png'' ''webp'' = ''path/img.webp''"
    by (simp add: replaceFileExtension_def backslash_def)
next
  fix f e
  assume "CHR ''.'' \<notin> set (lastSegment f)"
  then show "replaceFileExtension f e = f"
    by (rule replaceFileExtension_no_dot)
qed

theorem C9_replaceFileExtension_witness:
  "CHR ''.'' \<notin> set (lastSegment ''dir.v2/README'') \<and>
   replaceFileExtension ''dir.v2/README'' ''webp'' = ''dir.v2/README''"
proof -
  have seg: "CHR ''.'' \<notin> set (lastSegment ''dir.v2/README'')"
    by (simp add: lastSegment_def backslash_def)
  from C9_replaceFileExtension seg
  have "replaceFileExtension ''dir.v2/README'' ''webp'' = ''dir.v2/README''"
    by blast
  with seg show ?thesis by simp
qed

section \<open>Properties of the sniffer\<close>

lemma sniff_short: "length buffer < 2 \<Longrightarrow> sniff buffer = None"
  by (simp add: sniff_def)

text \<open>
  C7. A byte buffer shorter than 2 bytes, of any of the three accepted types, gets no match:
  \<open>fileTypeFromBuffer\<close> returns \<open>undefined\<close> and throws nothing.
\<close>

theorem C7_short_buffer_no_match:
  assumes "length buffer < 2"
  shows "fileTypeFromBuffer (Uint8Array buffer) = Inr None \<and>
         fileTypeFromBuffer (ArrayBuffer buffer) = Inr None \<and>
         fileTypeFromBuffer (Buffer buffer) = Inr None"
  using assms by (simp add: fileTypeFromBuffer_def sniff_short)

theorem C7_short_buffer_no_match_witness:
  "length [0xff :: byte] < 2 \<and>
   fileTypeFromBuffer (Uint8Array [0xff]) = Inr None \<and>
   fileTypeFromBuffer (ArrayBuffer [0xff]) = Inr None \<and>
   fileTypeFromBuffer (Buffer [0xff]) = Inr None"
  using C7_short_buffer_no_match [of "[0xff]"] by simp

lemma findIndex_nonneg_iff: "findIndex n P \<ge> 0 \<longleftrightarrow> (\<exists>i<n. P i)"
proof (cases "find P [0..<n]")
  case None
  then have "\<not> (\<exists>i<n. P i)"
    by (auto simp: find_None_iff)
  with None show ?thesis
    by (simp add: findIndex_def)
next
  case (Some k)
  then have "k < n \<and> P k"
    by (auto simp: find_Some_iff)
  with Some show ?thesis
    by (auto simp: findIndex_def)
qed

lemma findIndex_eq_D:
  assumes "findIndex n P = int k"
  shows "k < n \<and> P k \<and> (\<forall>j<k. \<not> P j)"
proof -
  from assms have "find P [0..<n] = Some k"
    by (auto simp: findIndex_def split: option.splits)
  then show ?thesis
    by (auto simp: find_Some_iff)
qed

lemma byteAt_take_drop:
  "m + s \<le> length b \<Longrightarrow> byteAt (take m (drop s b)) i = (if i < m then byteAt b (s + i) else None)"
  by (auto simp: byteAt_def)

lemma chunkAt_take_drop:
  assumes "m + s \<le> length b"
  shows "chunkAt (take m (drop s b)) i b0 b1 b2 b3 \<longleftrightarrow> i + 3 < m \<and> chunkAt b (s + i) b0 b1 b2 b3"
  using assms by (auto simp: chunkAt_def byteAt_take_drop add.assoc split: if_splits)

lemma subarray_found:
  assumes "33 \<le> k" "k < length buffer"
  shows "subarray buffer 33 (int k) = take (k - 33) (drop 33 buffer)"
  using assms by (simp add: subarray_def relativeIndex_def Let_def nat_diff_distrib')

text \<open>
  When the scan locates an \<open>IDAT\<close> chunk, at index \<open>k\<close>, the block answers as its comment
  says: \<open>apng\<close> exactly when an \<open>acTL\<close> chunk type lies between offset 33 and the chunk.
\<close>

lemma pngOrApng_found:
  assumes idat: "firstImageDataChunkIndex buffer = int k"
  shows "pngOrApng buffer =
      (if \<exists>j. 33 \<le> j \<and> j + 4 \<le> k \<and> chunkAt buffer j 0x61 0x63 0x54 0x4c
       then \<lparr>ext = ''apng'', mime = ''image/apng''\<rparr>
       else \<lparr>ext = ''png'', mime = ''image/png''\<rparr>)"
proof -
  from idat have k: "33 \<le> k" "k < length buffer"
    using findIndex_eq_D [of "length buffer" _ k] by (auto simp: firstImageDataChunkIndex_def)
  have sl: "subarray buffer 33 (firstImageDataChunkIndex buffer) = take (k - 33) (drop 33 buffer)"
    using subarray_found [OF k] idat by simp
  have len: "length (take (k - 33) (drop 33 buffer)) = k - 33"
    using k by simp
  have fits: "(k - 33) + 33 \<le> length buffer"
    using k by simp
  have "(\<exists>i<k - 33. chunkAt (take (k - 33) (drop 33 buffer)) i 0x61 0x63 0x54 0x4c) \<longleftrightarrow>
        (\<exists>j. 33 \<le> j \<and> j + 4 \<le> k \<and> chunkAt buffer j 0x61 0x63 0x54 0x4c)" (is "?L \<longleftrightarrow> ?R")
  proof
    assume ?L
    then obtain i where "i + 3 < k - 33" "chunkAt buffer (33 + i) 0x61 0x63 0x54 0x4c"
      using chunkAt_take_drop [OF fits] by blast
    then have "33 \<le> 33 + i \<and> (33 + i) + 4 \<le> k \<and> chunkAt buffer (33 + i) 0x61 0x63 0x54 0x4c"
      by simp
    then show ?R by blast
  next
    assume ?R
    then obtain j where j: "33 \<le> j" "j + 4 \<le> k" "chunkAt buffer j 0x61 0x63 0x54 0x4c"
      by blast
    then have i: "j - 33 < k - 33" "(j - 33) + 3 < k - 33" "33 + (j - 33) = j"
      by simp_all
    with j have "chunkAt (take (k - 33) (drop 33 buffer)) (j - 33) 0x61 0x63 0x54 0x4c"
      using chunkAt_take_drop [OF fits, of "j - 33"] by simp
    with i(1) show ?L by blast
  qed
  then have "findIndex (length (take (k - 33) (drop 33 buffer)))
               (\<lambda>i. chunkAt (take (k - 33) (drop 33 buffer)) i 0x61 0x63 0x54 0x4c) \<ge> 0 \<longleftrightarrow>
             (\<exists>j. 33 \<le> j \<and> j + 4 \<le> k \<and> chunkAt buffer j 0x61 0x63 0x54 0x4c)"
    unfolding findIndex_nonneg_iff len .
  then show ?thesis
    unfolding pngOrApng_def Let_def sl by simp
qed

lemma sniff_png_signed:
  assumes "take 8 buffer = pngSignature"
  shows "sniff buffer = Some (pngOrApng buffer)"
proof -
  from assms obtain rest where b: "buffer = pngSignature @ rest"
    by (metis append_take_drop_id)
  show ?thesis
    unfolding b by (simp add: sniff_def check_def byteAt_def pngSignature_def upt_rec nth_append)
qed

lemma sniff_png_with_IDAT:
  assumes "take 8 buffer = pngSignature" and "firstImageDataChunkIndex buffer = int k"
  shows "sniff buffer =
      Some (if \<exists>j. 33 \<le> j \<and> j + 4 \<le> k \<and> chunkAt buffer j 0x61 0x63 0x54 0x4c
            then \<lparr>ext = ''apng'', mime = ''image/apng''\<rparr>
            else \<lparr>ext = ''png'', mime = ''image/png''\<rparr>)"
  using assms by (simp only: sniff_png_signed pngOrApng_found)

text \<open>
  C4. The claim says that a PNG-signed buffer in which no \<open>IDAT\<close> chunk is located is
  classified \<open>png\<close>. On the buffer \<open>truncatedApng\<close> the scan finds no \<open>IDAT\<close> (the index is
  -1), \<open>subarray(33, -1)\<close> is the buffer from offset 33 without its last byte, the \<open>acTL\<close>
  scan succeeds there, and the answer is \<open>apng\<close>.
\<close>

theorem C4_apng_without_IDAT:
  "take 8 truncatedApng = pngSignature \<and>
   firstImageDataChunkIndex truncatedApng = - 1 \<and>
   fileTypeFromBuffer (Uint8Array truncatedApng) = Inr (Some \<lparr>ext = ''apng'', mime = ''image/apng''\<rparr>)"
  by code_simp

section \<open>Properties of the scheduler\<close>



lemma assignIndex_length: "length (assignIndex xs i v) = max (length xs) (Suc i)"
  by (auto simp: assignIndex_def)

lemma assignIndex_same: "assignIndex xs i v ! i = Some v"
  by (auto simp: assignIndex_def nth_append)

lemma assignIndex_other: "j \<noteq> i \<Longrightarrow> j < length xs \<Longrightarrow> assignIndex xs i v ! j = xs ! j"
  by (auto simp: assignIndex_def nth_append)

lemma funpow_nextTask:
  "((nextTask tasks) ^^ k) \<lparr>result = [], entries = 0, tasksFulfilled = 0, inFlight = [], promise = Pending\<rparr> =
     \<lparr>result = [], entries = min k (length tasks), tasksFulfilled = 0,
      inFlight = [0..<min k (length tasks)],
      promise = (if 0 < k \<and> tasks = [] then Resolved [] else Pending)\<rparr>"
proof (induction k)
  case 0
  show ?case by simp
next
  case (Suc k)
  let ?s0 = "\<lparr>result = [], entries = 0, tasksFulfilled = 0, inFlight = [], promise = Pending\<rparr>
               :: ('a, 'b) scheduler"
  have "((nextTask tasks) ^^ Suc k) ?s0 = nextTask tasks (((nextTask tasks) ^^ k) ?s0)"
    by simp
  also have "\<dots> = nextTask tasks
       \<lparr>result = [], entries = min k (length tasks), tasksFulfilled = 0,
        inFlight = [0..<min k (length tasks)],
        promise = (if 0 < k \<and> tasks = [] then Resolved [] else Pending)\<rparr>"
    by (simp only: Suc)
  also have "\<dots> =
       \<lparr>result = [], entries = min (Suc k) (length tasks), tasksFulfilled = 0,
        inFlight = [0..<min (Suc k) (length tasks)],
        promise = (if 0 < Suc k \<and> tasks = [] then Resolved [] else Pending)\<rparr>"
    by (cases "k < length tasks") (auto simp: nextTask_def resolve_def min_def)
  finally show ?case .
qed

lemma executor_eq:
  "executor limit tasks =
     \<lparr>result = [], entries = min limit (length tasks), tasksFulfilled = 0,
      inFlight = [0..<min limit (length tasks)],
      promise = (if 0 < limit \<and> tasks = [] then Resolved [] else Pending)\<rparr>"
  by (simp add: executor_def funpow_nextTask)

lemma invariant_executor: "0 < limit \<Longrightarrow> invariant limit tasks (executor limit tasks)"
  by (auto simp: executor_eq invariant_def wellFormed_def clean_def)

lemma settle_Rejects:
  assumes "i \<in> set (inFlight s)" "i < length tasks" "tasks ! i = Rejects e"
  shows "settle tasks i s = reject e (s\<lparr>inFlight := remove1 i (inFlight s)\<rparr>)"
  using assms by (simp add: settle_def)

lemma settle_Fulfils:
  assumes "i \<in> set (inFlight s)" "i < length tasks" "tasks ! i = Fulfils v"
  shows "settle tasks i s =
     nextTask tasks (s\<lparr>inFlight := remove1 i (inFlight s),
                       result := assignIndex (result s) i v,
                       tasksFulfilled := Suc (tasksFulfilled s)\<rparr>)"
  using assms by (simp add: settle_def onFulfilled_def)

lemma length_remove1_in: "i \<in> set xs \<Longrightarrow> Suc (length (remove1 i xs)) = length xs"
  by (simp add: length_remove1) (cases xs; auto)

lemma invariant_settle:
  assumes inv: "invariant limit tasks s" and i: "i \<in> set (inFlight s)"
  shows "invariant limit tasks (settle tasks i s)"
proof -
  from inv have wf: "wellFormed limit tasks s" by (simp add: invariant_def)
  from wf i have il: "i < entries s" "i < length tasks" by (auto simp: wellFormed_def)
  from wf i have np: "\<And>r. promise s \<noteq> Resolved r"
    by (auto simp: wellFormed_def dest: length_remove1_in)
  show ?thesis
  proof (cases "tasks ! i")
    case (Rejects e)
    have st: "settle tasks i s = reject e (s\<lparr>inFlight := remove1 i (inFlight s)\<rparr>)"
      using i il(2) Rejects by (rule settle_Rejects)
    have "rejected (settle tasks i s)"
      using np by (cases "promise s") (auto simp: st reject_def rejected_def)
    moreover have "Rejects e \<in> set tasks"
      using il(2) Rejects by (metis nth_mem)
    then have "wellFormed limit tasks (settle tasks i s)"
      using wf i length_remove1_in [OF i]
      by (cases "promise s") (auto simp: st reject_def wellFormed_def)
    ultimately show ?thesis by (simp add: invariant_def)
  next
    case (Fulfils v)
    define s1 where "s1 = s\<lparr>inFlight := remove1 i (inFlight s),
                                result := assignIndex (result s) i v,
                                tasksFulfilled := Suc (tasksFulfilled s)\<rparr>"
    have st: "settle tasks i s = nextTask tasks s1"
      unfolding s1_def using i il(2) Fulfils by (rule settle_Fulfils)
    have len: "Suc (length (remove1 i (inFlight s))) = length (inFlight s)"
      using i by (rule length_remove1_in)
    have dist: "distinct (inFlight s)" and below: "\<forall>j \<in> set (inFlight s). j < entries s"
      using wf by (auto simp: wellFormed_def)
    have filled: "\<exists>w. tasks ! j = Fulfils w \<and> j < length (assignIndex (result s) i v) \<and>
                      assignIndex (result s) i v ! j = Some w"
      if "clean limit tasks s" "j < entries s" "j \<notin> set (remove1 i (inFlight s))" for j
    proof (cases "j = i")
      case True
      then show ?thesis
        by (simp add: Fulfils assignIndex_same assignIndex_length)
    next
      case False
      with that dist have "j \<notin> set (inFlight s)" by simp
      with that obtain w where "tasks ! j = Fulfils w" "j < length (result s)" "result s ! j = Some w"
        by (auto simp: clean_def)
      with False show ?thesis
        by (simp add: assignIndex_other assignIndex_length)
    qed
    show ?thesis
    proof (cases "entries s < length tasks")
      case True
      then have n: "nextTask tasks s1 =
          s1\<lparr>entries := Suc (entries s), inFlight := remove1 i (inFlight s) @ [entries s]\<rparr>"
        by (simp add: nextTask_def s1_def)
      have w: "wellFormed limit tasks (nextTask tasks s1)"
        unfolding n using wf True len np dist below
        by (auto simp: s1_def wellFormed_def dest: notin_set_remove1)
      have c: "clean limit tasks (nextTask tasks s1)" if cl: "clean limit tasks s"
      proof -
        have "promise s = Pending" "Suc (tasksFulfilled s) \<noteq> length tasks"
          using cl True len by (auto simp: clean_def split: if_splits)
        moreover have "\<forall>j<Suc (entries s). j \<notin> set (remove1 i (inFlight s) @ [entries s]) \<longrightarrow>
            (\<exists>w. tasks ! j = Fulfils w \<and> j < length (assignIndex (result s) i v) \<and>
                 assignIndex (result s) i v ! j = Some w)"
          using filled [OF cl] by (auto simp: less_Suc_eq)
        ultimately show ?thesis
          unfolding n using cl True len il
          by (simp add: s1_def clean_def assignIndex_length)
      qed
      have "rejected (nextTask tasks s1) = rejected s"
        unfolding n by (simp add: s1_def rejected_def)
      with w c inv show ?thesis
        by (auto simp: invariant_def st)
    next
      case False
      with wf have e: "entries s = length tasks" by (simp add: wellFormed_def)
      have n: "nextTask tasks s1 =
          (if Suc (tasksFulfilled s) = length tasks then resolve (assignIndex (result s) i v) s1 else s1)"
        by (simp add: nextTask_def s1_def e)
      have w: "wellFormed limit tasks (nextTask tasks s1)"
        unfolding n using wf len np dist below
        by (cases "promise s") (auto simp: s1_def wellFormed_def resolve_def dest: notin_set_remove1)
      have c: "clean limit tasks (nextTask tasks s1)" if cl: "clean limit tasks s"
      proof -
        have p: "promise s = Pending"
          using cl e len by (auto simp: clean_def split: if_splits)
        have "\<forall>j<entries s. j \<notin> set (remove1 i (inFlight s)) \<longrightarrow>
            (\<exists>w. tasks ! j = Fulfils w \<and> j < length (assignIndex (result s) i v) \<and>
                 assignIndex (result s) i v ! j = Some w)"
          using filled [OF cl] by blast
        moreover have "remove1 i (inFlight s) = []" if "Suc (tasksFulfilled s) = length tasks"
        proof -
          from cl e have "tasksFulfilled s + length (inFlight s) = length tasks"
            by (simp add: clean_def)
          with that len have "length (remove1 i (inFlight s)) = 0"
            by linarith
          then show ?thesis by simp
        qed
        ultimately show ?thesis
          unfolding n using cl e len il p
          by (simp add: s1_def clean_def assignIndex_length resolve_def)
      qed
      have "rejected (nextTask tasks s1) = rejected s"
        unfolding n by (cases "promise s") (simp_all add: s1_def rejected_def resolve_def)
      with w c inv show ?thesis
        by (auto simp: invariant_def st)
    qed
  qed
qed

lemma invariant_run:
  "invariant limit tasks s \<Longrightarrow> validOrder tasks order s \<Longrightarrow> invariant limit tasks (run tasks order s)"
  by (induction order arbitrary: s) (simp_all add: invariant_settle)

lemma in_flight_bound: "invariant limit tasks s \<Longrightarrow> i \<in> set (inFlight s) \<Longrightarrow> i < length tasks"
  by (auto simp: invariant_def wellFormed_def)

lemma settle_Fulfils_count:
  assumes "invariant limit tasks s" "i \<in> set (inFlight s)" "tasks ! i = Fulfils v"
  shows "tasksFulfilled (settle tasks i s) = Suc (tasksFulfilled s) \<and>
         rejected (settle tasks i s) = rejected s"
proof -
  from assms have "i < length tasks" by (simp add: in_flight_bound)
  with assms have "settle tasks i s =
     nextTask tasks (s\<lparr>inFlight := remove1 i (inFlight s),
                       result := assignIndex (result s) i v,
                       tasksFulfilled := Suc (tasksFulfilled s)\<rparr>)"
    by (simp add: settle_Fulfils)
  then show ?thesis
    by (cases "promise s") (simp_all add: nextTask_def resolve_def rejected_def)
qed

lemma run_all_fulfil:
  assumes "invariant limit (map Fulfils vs) s" "validOrder (map Fulfils vs) order s"
  shows "tasksFulfilled (run (map Fulfils vs) order s) = tasksFulfilled s + length order \<and>
         rejected (run (map Fulfils vs) order s) = rejected s"
  using assms
proof (induction order arbitrary: s)
  case Nil
  show ?case by simp
next
  case (Cons i order)
  then have i: "i \<in> set (inFlight s)" and v: "validOrder (map Fulfils vs) order (settle (map Fulfils vs) i s)"
    by simp_all
  from Cons.prems(1) i have b: "i < length vs"
    using in_flight_bound by fastforce
  then have f: "map Fulfils vs ! i = Fulfils (vs ! i)" by simp
  have inv': "invariant limit (map Fulfils vs) (settle (map Fulfils vs) i s)"
    using Cons.prems(1) i by (rule invariant_settle)
  from settle_Fulfils_count [OF Cons.prems(1) i f] Cons.IH [OF inv' v]
  show ?case by simp
qed

lemma clean_complete:
  assumes c: "clean limit (map Fulfils vs) s" and t: "tasksFulfilled s = length vs"
    and w: "wellFormed limit (map Fulfils vs) s"
  shows "promise s = Resolved (map Some vs)"
proof -
  from c have "tasksFulfilled s + length (inFlight s) = entries s"
    by (simp add: clean_def)
  moreover from w have "entries s \<le> length vs"
    by (simp add: wellFormed_def)
  ultimately have "entries s = length vs \<and> length (inFlight s) = 0"
    using t by linarith
  then have e: "entries s = length vs" and nf: "inFlight s = []"
    by simp_all
  from c have le: "length (result s) \<le> length vs"
    by (simp add: clean_def e)
  have all: "i < length (result s) \<and> result s ! i = Some (vs ! i)" if "i < length vs" for i
    using c that by (auto simp: clean_def e nf)
  have "length (result s) = length vs"
  proof (cases vs rule: rev_cases)
    case Nil
    with le show ?thesis by simp
  next
    case (snoc ys y)
    then have "length vs - 1 < length (result s)"
      using all [of "length vs - 1"] by simp
    with le show ?thesis by simp
  qed
  then have "result s = map Some vs"
    using all by (simp add: list_eq_iff_nth_eq)
  with c t show ?thesis by (simp add: clean_def)
qed

lemma clean_progress:
  assumes c: "clean limit tasks s" and t: "tasksFulfilled s < length tasks"
    and w: "wellFormed limit tasks s" and l: "0 < limit"
  shows "promise s = Pending \<and> inFlight s \<noteq> []"
proof -
  have "length (inFlight s) > 0"
  proof (cases "entries s < length tasks")
    case True
    with c l show ?thesis by (simp add: clean_def)
  next
    case False
    with w have "entries s = length tasks" by (simp add: wellFormed_def)
    moreover from c have "tasksFulfilled s + length (inFlight s) = entries s"
      by (simp add: clean_def)
    ultimately show ?thesis using t by linarith
  qed
  with c t show ?thesis by (auto simp: clean_def)
qed

lemma throttleAll_functions:
  assumes "1 \<le> limit"
  shows "throttleAll (Integer limit) (map Function tasks) = Inr (executor (nat limit) tasks)"
proof -
  have "list_all isFunction (map Function tasks)" "callables (map Function tasks) = tasks"
    by (induction tasks) (simp_all add: isFunction_def)
  with assms show ?thesis
    by (simp add: throttleAll_def)
qed

text \<open>
  C1. For a limit of at least 1 and tasks that all fulfil, with the values \<open>vs\<close>:
  \<open>throttleAll\<close> returns its promise; for no tasks the promise is resolved with the empty
  array at once; and in whatever order the tasks complete, no more than \<open>length vs\<close>
  completions can happen, before the last one the promise is pending and some task is in
  flight (so the run goes on), and with the last one the promise is resolved with exactly
  the values, the one of task \<open>i\<close> at index \<open>i\<close>.
\<close>

theorem C1_throttleAll_all_fulfil:
  fixes tasks :: "('a, 'e) task list"
  assumes "1 \<le> limit" and "tasks = map Fulfils vs"
  shows "throttleAll (Integer limit) (map Function tasks) = Inr (executor (nat limit) tasks) \<and>
         (vs = [] \<longrightarrow> promise (executor (nat limit) tasks) = Resolved []) \<and>
         (\<forall>order. validOrder tasks order (executor (nat limit) tasks) \<longrightarrow>
            length order \<le> length vs \<and>
            (length order < length vs \<longrightarrow>
               promise (run tasks order (executor (nat limit) tasks)) = Pending \<and>
               inFlight (run tasks order (executor (nat limit) tasks)) \<noteq> []) \<and>
            (length order = length vs \<longrightarrow>
               promise (run tasks order (executor (nat limit) tasks)) = Resolved (map Some vs)))"
proof (intro conjI allI impI)
  let ?s0 = "executor (nat limit) tasks"
  from assms have l: "0 < nat limit" by simp
  show "throttleAll (Integer limit) (map Function tasks) = Inr ?s0"
    using assms(1) by (rule throttleAll_functions)
  show "promise ?s0 = Resolved []" if "vs = []"
    using that l assms(2) by (simp add: executor_eq)
  fix order
  assume v: "validOrder tasks order ?s0"
  have inv0: "invariant (nat limit) tasks ?s0"
    using l by (rule invariant_executor)
  have inv: "invariant (nat limit) tasks (run tasks order ?s0)"
    using inv0 v by (rule invariant_run)
  have "tasksFulfilled (run tasks order ?s0) = length order \<and> \<not> rejected (run tasks order ?s0)"
    using run_all_fulfil [of "nat limit" vs ?s0 order] inv0 v
    by (simp add: assms(2) executor_eq rejected_def)
  then have tf: "tasksFulfilled (run tasks order ?s0) = length order"
    and cl: "clean (nat limit) (map Fulfils vs) (run tasks order ?s0)"
    and wf: "wellFormed (nat limit) (map Fulfils vs) (run tasks order ?s0)"
    using inv by (auto simp: invariant_def assms(2))
  show "length order \<le> length vs"
    using tf wf by (simp add: wellFormed_def)
  show "promise (run tasks order ?s0) = Pending" if "length order < length vs"
    using clean_progress [OF cl _ wf l] that tf by simp
  show "inFlight (run tasks order ?s0) \<noteq> []" if "length order < length vs"
    using clean_progress [OF cl _ wf l] that tf by simp
  show "promise (run tasks order ?s0) = Resolved (map Some vs)" if "length order = length vs"
    using clean_complete [OF cl _ wf] that tf by simp
qed

text \<open>Three tasks under limit 2, completing in the order 1, 0, 2.\<close>

theorem C1_throttleAll_all_fulfil_witness:
  "(1::int) \<le> 2 \<and>
   validOrder [Fulfils 10, Fulfils 20, Fulfils 30] [1, 0, 2]
     (executor (nat 2) [Fulfils 10, Fulfils 20, Fulfils (30::nat) :: (nat, string) task]) \<and>
   promise (run [Fulfils 10, Fulfils 20, Fulfils 30] [1, 0, 2]
     (executor (nat 2) [Fulfils 10, Fulfils 20, Fulfils (30::nat) :: (nat, string) task])) =
     Resolved [Some 10, Some 20, Some 30]"
proof -
  let ?tasks = "[Fulfils 10, Fulfils 20, Fulfils (30::nat) :: (nat, string) task]"
  have v: "validOrder ?tasks [1, 0, 2] (executor (nat 2) ?tasks)"
    by code_simp
  have l: "(1::int) \<le> 2" by simp
  have t: "?tasks = map Fulfils [10, 20, 30]" by simp
  have "promise (run ?tasks [1, 0, 2] (executor (nat 2) ?tasks)) = Resolved (map Some [10, 20, 30])"
    using C1_throttleAll_all_fulfil [OF l t, THEN conjunct2, THEN conjunct2, THEN spec, THEN mp, OF v]
    by simp
  with v show ?thesis by simp
qed

lemma sequential_executor: "sequential (executor 1 tasks)"
  by (cases tasks) (simp_all add: executor_eq sequential_def)

lemma sequential_settle:
  assumes "sequential s"
  shows "sequential (settle tasks i s)"
proof (cases "i \<in> set (inFlight s) \<and> i < length tasks")
  case False
  with assms show ?thesis by (auto simp: settle_def)
next
  case True
  with assms have one: "inFlight s = [i]"
    by (auto simp: sequential_def)
  show ?thesis
  proof (cases "tasks ! i")
    case (Fulfils v)
    with True one show ?thesis
      by (cases "promise s")
         (auto simp: settle_Fulfils nextTask_def resolve_def sequential_def)
  next
    case (Rejects e)
    with True one show ?thesis
      by (cases "promise s") (auto simp: settle_Rejects reject_def sequential_def)
  qed
qed

lemma sequential_run: "sequential s \<Longrightarrow> sequential (run tasks order s)"
  by (induction order arbitrary: s) (simp_all add: sequential_settle)

text \<open>
  C2, as amended. For a limit of at least 1 and any tasks, in every state the scheduler
  reaches: at most \<open>limit\<close> tasks are in flight; as long as no task has failed (the promise
  is not rejected) and tasks are still queued, exactly \<open>limit\<close> are in flight, the next
  queued task having been started in the turn in which a task fulfilled; a task that fails
  leaves its slot empty and starts nothing; and for limit 1 at most the task taken last
  from the list is in flight, every earlier one having completed.
\<close>

theorem C2_throttleAll_in_flight:
  fixes tasks :: "('a, 'e) task list"
  assumes "1 \<le> limit"
    and "validOrder tasks order (executor (nat limit) tasks)"
    and "s = run tasks order (executor (nat limit) tasks)"
  shows "throttleAll (Integer limit) (map Function tasks) = Inr (executor (nat limit) tasks) \<and>
         length (inFlight s) \<le> nat limit \<and>
         (\<not> rejected s \<and> entries s < length tasks \<longrightarrow> length (inFlight s) = nat limit) \<and>
         (\<forall>i e. i \<in> set (inFlight s) \<and> tasks ! i = Rejects e \<longrightarrow>
            entries (settle tasks i s) = entries s \<and>
            inFlight (settle tasks i s) = remove1 i (inFlight s)) \<and>
         (limit = 1 \<longrightarrow> inFlight s = [] \<or> (0 < entries s \<and> inFlight s = [entries s - 1]))"
proof -
  from assms(1) have l: "0 < nat limit" by simp
  have "invariant (nat limit) tasks (executor (nat limit) tasks)"
    using l by (rule invariant_executor)
  then have inv: "invariant (nat limit) tasks s"
    unfolding assms(3) using assms(2) by (rule invariant_run)
  have a: "throttleAll (Integer limit) (map Function tasks) = Inr (executor (nat limit) tasks)"
    using assms(1) by (rule throttleAll_functions)
  have b: "length (inFlight s) \<le> nat limit"
    using inv by (simp add: invariant_def wellFormed_def)
  have c: "length (inFlight s) = nat limit" if "\<not> rejected s" "entries s < length tasks"
    using inv that by (simp add: invariant_def clean_def)
  have d: "sequential s" if "limit = 1"
    unfolding assms(3) using that sequential_executor [of tasks] by (simp add: sequential_run)
  have e: "entries (settle tasks i s) = entries s \<and>
           inFlight (settle tasks i s) = remove1 i (inFlight s)"
    if "i \<in> set (inFlight s) \<and> tasks ! i = Rejects e" for i e
  proof -
    from that inv have "i < length tasks" by (simp add: in_flight_bound)
    with that show ?thesis
      by (cases "promise s") (simp_all add: settle_Rejects reject_def)
  qed
  from a b c d e show ?thesis
    by (simp add: sequential_def)
qed

text \<open>Three tasks under limit 1, after the first has fulfilled: the second is in flight.\<close>

theorem C2_throttleAll_in_flight_witness:
  "(1::int) \<le> 1 \<and>
   validOrder [Fulfils 10, Fulfils 20, Fulfils (30::nat) :: (nat, string) task] [0]
     (executor (nat 1) [Fulfils 10, Fulfils 20, Fulfils 30]) \<and>
   \<not> rejected (run [Fulfils 10, Fulfils 20, Fulfils (30::nat) :: (nat, string) task] [0]
     (executor (nat 1) [Fulfils 10, Fulfils 20, Fulfils 30])) \<and>
   entries (run [Fulfils 10, Fulfils 20, Fulfils (30::nat) :: (nat, string) task] [0]
     (executor (nat 1) [Fulfils 10, Fulfils 20, Fulfils 30])) < 3 \<and>
   inFlight (run [Fulfils 10, Fulfils 20, Fulfils (30::nat) :: (nat, string) task] [0]
     (executor (nat 1) [Fulfils 10, Fulfils 20, Fulfils 30])) = [1]"
proof -
  let ?tasks = "[Fulfils 10, Fulfils 20, Fulfils (30::nat) :: (nat, string) task]"
  let ?s = "run ?tasks [0] (executor (nat 1) ?tasks)"
  have l: "(1::int) \<le> 1" by simp
  have v: "validOrder ?tasks [0] (executor (nat 1) ?tasks)"
    by code_simp
  have r: "\<not> rejected ?s" and e: "entries ?s = 2"
    by code_simp+
  have "length (inFlight ?s) = nat 1 \<and> (inFlight ?s = [] \<or> inFlight ?s = [entries ?s - 1])"
    using C2_throttleAll_in_flight [OF l v refl] r e by simp
  then have "inFlight ?s = [1]"
    using e by auto
  with v r e show ?thesis by simp
qed

text \<open>
  C2 as stated fails. Under limit 1 with a first task that rejects and a second one queued,
  the first task is in flight; when it completes, nothing is in flight and the second task
  is still queued (the iterator stands at 1 of 2): it is never started.
\<close>

theorem C2_slot_not_refilled_after_failure:
  "throttleAll (Integer 1) [Function (Rejects ''boom''), Function (Fulfils (7::nat))] =
     Inr (executor 1 [Rejects ''boom'', Fulfils 7]) \<and>
   inFlight (executor 1 [Rejects ''boom'', Fulfils (7::nat)]) = [0] \<and>
   validOrder [Rejects ''boom'', Fulfils (7::nat)] [0] (executor 1 [Rejects ''boom'', Fulfils 7]) \<and>
   entries (run [Rejects ''boom'', Fulfils (7::nat)] [0] (executor 1 [Rejects ''boom'', Fulfils 7])) = 1 \<and>
   inFlight (run [Rejects ''boom'', Fulfils (7::nat)] [0] (executor 1 [Rejects ''boom'', Fulfils 7])) = []"
  by code_simp







section \<open>Properties of the adapters\<close>

lemma push_appends_one:
  assumes "r < length h"
  shows "push r issue h = h[r := deref h r @ [issue]]"
  using assms by (simp add: push_def deref_def)

text \<open>What \<open>processed\<close> gives: the spread of the names throws, or an item is returned.\<close>

lemma processed_eq:
  assumes "validItem h original"
  shows "processed original newFilename newData extra processedFlag processedBy adapter h =
     (case spreadNames (info original) processedBy of
        Inl thrown \<Rightarrow> (Inl thrown, h @ [deref h (warnings original), deref h (errors original)])
      | Inr names \<Rightarrow>
          (Inr (Some
             \<lparr>filename = newFilename, data = newData, warnings = length h, errors = Suc (length h),
              info = Some ((spreadInfo (info original) ++ map_of (rev extra))
                             (processedFlag \<mapsto> Flag True, processedBy \<mapsto> Names (adapter # names)))\<rparr>),
           h @ [deref h (warnings original), deref h (errors original)]))"
  using assms
  by (simp add: processed_def spreadCopy_def deref_def nth_append validItem_def split: sum.splits)

lemma map_of_rev_notin: "key \<notin> fst ` set extra \<Longrightarrow> map_of (rev extra) key = None"
  by (simp add: map_of_eq_None_iff)

lemma map_of_rev_in:
  "distinct (map fst extra) \<Longrightarrow> (key, v) \<in> set extra \<Longrightarrow> map_of (rev extra) key = Some v"
  by (simp add: distinct_rev rev_map [symmetric])

lemma processed_carriedForward:
  assumes "processed original f d extra pf pb a h = (Inr (Some r), h')"
    and "pf \<noteq> pb" and "distinct (map fst extra)" and "pf \<notin> fst ` set extra" and "pb \<notin> fst ` set extra"
    and v: "validItem h original"
  shows "carriedForward original h r h' a pf pb extra"
proof (cases "spreadNames (info original) pb")
  case (Inl thrown)
  with assms(1) show ?thesis by (simp add: processed_eq [OF v])
next
  case (Inr names)
  with assms(1) have r: "r = \<lparr>filename = f, data = d, warnings = length h, errors = Suc (length h),
              info = Some ((spreadInfo (info original) ++ map_of (rev extra))
                             (pf \<mapsto> Flag True, pb \<mapsto> Names (a # names)))\<rparr>"
    and h': "h' = h @ [deref h (warnings original), deref h (errors original)]"
    by (simp_all add: processed_eq [OF v])
  have other: "(spreadInfo (info original) ++ map_of (rev extra)) key = spreadInfo (info original) key"
    if "key \<notin> fst ` set extra" for key
  proof -
    from that have "map_of (rev extra) key = None" by (rule map_of_rev_notin)
    then show ?thesis by (simp add: map_add_def)
  qed
  have written:
    "((spreadInfo (info original) ++ map_of (rev extra))
        (pf \<mapsto> Flag True, pb \<mapsto> Names (a # names))) key = Some value'"
    if "(key, value') \<in> set extra" for key value'
  proof -
    from that have k: "key \<in> fst ` set extra" by force
    with assms(4,5) have "key \<noteq> pf" "key \<noteq> pb" by auto
    moreover have "map_of (rev extra) key = Some value'"
      using assms(3) that by (rule map_of_rev_in)
    ultimately show ?thesis by (simp add: map_add_def)
  qed
  have all: "list_all (\<lambda>(key, value').
      ((spreadInfo (info original) ++ map_of (rev extra))
         (pf \<mapsto> Flag True, pb \<mapsto> Names (a # names))) key = Some value') extra"
    unfolding list_all_iff using written by auto
  show ?thesis
    unfolding carriedForward_def r h'
    using assms(2) Inr other all
    by (simp add: deref_def nth_append)
qed

lemma extOutputOf_eq: "extOutputOf r = Inr (map_option ext (sniff (encodedBytes r)))"
  by (cases r) (simp_all add: extOutputOf_def encodedInput_def encodedBytes_def fileTypeFromBuffer_def
      split: option.splits)


lemma imageminMinify_mismatch:
  assumes v: "validItem h original"
    and c: "imageminNormalizeConfig X options' = Inr ps"
    and b: "imageminBuffer X (data original) ps = Inr output"
    and t: "sniff (encodedBytes output) = Some t"
    and d: "ext t \<noteq> []" "ext t \<noteq> declaredExtension X (filename original)"
    and l: "\<not> isAbsoluteURL (filename original)"
  shows "imageminMinify X original options' h =
           (Inr None, h[warnings original :=
              deref h (warnings original) @ [useGenerateWarning (ext t) (filename original)]])"
proof -
  have "formatDiffers (Some (ext t)) (declaredExtension X (filename original))"
    using d by (auto simp: formatDiffers_def)
  then show ?thesis
    using v c b t l
    by (simp add: imageminMinify_def extOutputOf_eq Let_def push_appends_one validItem_def)
qed

lemma imageminMinify_absolute:
  assumes v: "validItem h original"
    and c: "imageminNormalizeConfig X options' = Inr ps"
    and b: "imageminBuffer X (data original) ps = Inr output"
    and n: "spreadNames (info original) ''minimizedBy'' = Inr names"
    and l: "isAbsoluteURL (filename original)"
  shows "imageminMinify X original options' h =
           (Inr (Some
              \<lparr>filename = filename original, data = encodedBytes output,
               warnings = length h, errors = Suc (length h),
               info = Some ((spreadInfo (info original))
                              (''minimized'' \<mapsto> Flag True, ''minimizedBy'' \<mapsto> Names (''imagemin'' # names)))\<rparr>),
            h @ [deref h (warnings original), deref h (errors original)])"
  using c b n l by (simp add: imageminMinify_def processed_eq [OF v])

lemma ext_sniffTail: "sniffTail b = Some t \<Longrightarrow> ext t \<noteq> []"
  by (auto simp: sniffTail_def jpeg2000FileType_def split: if_splits option.splits)

lemma ext_ftyp: "ftypFileType b = Some t \<Longrightarrow> ext t \<noteq> []"
  by (auto simp: ftypFileType_def brandFileType_def split: if_splits)

lemma ext_sniffRaw: "sniffRaw b = Some t \<Longrightarrow> ext t \<noteq> []"
  unfolding sniffRaw_def
  by (auto split: if_splits option.splits dest: ext_ftyp ext_sniffTail)

lemma ext_pngOrApng: "ext (pngOrApng b) \<noteq> []"
  by (simp add: pngOrApng_def Let_def)

lemma ext_sniff: "sniff b = Some t \<Longrightarrow> ext t \<noteq> []"
  unfolding sniff_def
  by (auto split: if_splits dest: ext_sniffRaw simp: ext_pngOrApng)

text \<open>
  C5, as amended. Take an item whose arrays are alive, options that normalise, and an
  encoder output that sniffs to an extension other than the declared one. If
  \<open>isAbsoluteURL\<close> rejects the file name (a relative path without a scheme),
  \<open>imageminMinify\<close> returns \<open>null\<close> and the store changes in one place: the item's
  \<open>warnings\<close> array has the one warning more (its \<open>errors\<close> array is another array and is
  untouched). If \<open>isAbsoluteURL\<close> accepts the file name (and the names under
  \<open>minimizedBy\<close> can be spread), the item is returned under the same file name with the
  encoder's bytes, and the store only grows by the two new arrays: nothing is appended to
  an array that existed.
\<close>

theorem C5_imageminMinify_format_mismatch:
  assumes "validItem h original"
    and "imageminNormalizeConfig X options' = Inr ps"
    and "imageminBuffer X (data original) ps = Inr output"
    and "sniff (encodedBytes output) = Some t"
    and "ext t \<noteq> declaredExtension X (filename original)"
  shows "(\<not> isAbsoluteURL (filename original) \<longrightarrow>
            returnedNull (imageminMinify X original options' h) \<and>
            snd (imageminMinify X original options' h) =
              h[warnings original :=
                  deref h (warnings original) @ [useGenerateWarning (ext t) (filename original)]] \<and>
            deref (snd (imageminMinify X original options' h)) (warnings original) =
              deref h (warnings original) @ [useGenerateWarning (ext t) (filename original)] \<and>
            deref (snd (imageminMinify X original options' h)) (errors original) =
              deref h (errors original)) \<and>
         (isAbsoluteURL (filename original) \<and> spreadNames (info original) ''minimizedBy'' = Inr names \<longrightarrow>
            map_option filename (returnedItem (imageminMinify X original options' h)) =
              Some (filename original) \<and>
            map_option data (returnedItem (imageminMinify X original options' h)) =
              Some (encodedBytes output) \<and>
            snd (imageminMinify X original options' h) =
              h @ [deref h (warnings original), deref h (errors original)])"
proof (intro conjI impI)
  assume l: "\<not> isAbsoluteURL (filename original)"
  have e: "ext t \<noteq> []" using assms(4) by (rule ext_sniff)
  note m = imageminMinify_mismatch [OF assms(1-4) e assms(5) l]
  show "returnedNull (imageminMinify X original options' h)"
    by (simp add: m returnedNull_def)
  show "snd (imageminMinify X original options' h) =
          h[warnings original :=
              deref h (warnings original) @ [useGenerateWarning (ext t) (filename original)]]"
    by (simp add: m)
  show "deref (snd (imageminMinify X original options' h)) (warnings original) =
          deref h (warnings original) @ [useGenerateWarning (ext t) (filename original)]"
    using assms(1) by (simp add: m deref_def validItem_def)
  show "deref (snd (imageminMinify X original options' h)) (errors original) = deref h (errors original)"
    using assms(1) by (simp add: m deref_def validItem_def)
next
  assume a: "isAbsoluteURL (filename original) \<and> spreadNames (info original) ''minimizedBy'' = Inr names"
  note m = imageminMinify_absolute [OF assms(1-3) a [THEN conjunct2] a [THEN conjunct1]]
  show "map_option filename (returnedItem (imageminMinify X original options' h)) = Some (filename original)"
    by (simp add: m returnedItem_def)
  show "map_option data (returnedItem (imageminMinify X original options' h)) = Some (encodedBytes output)"
    by (simp add: m returnedItem_def)
  show "snd (imageminMinify X original options' h) =
          h @ [deref h (warnings original), deref h (errors original)]"
    by (simp add: m)
qed

lemma example_config:
  "imageminNormalizeConfig exampleExternals webpPlugin = Inr [Plugin ''imagemin-webp'' None]"
  by (simp add: imageminNormalizeConfig_def webpPlugin_def requirePlugin_def exampleExternals_def
      startsWith_def)

lemma example_buffer: "imageminBuffer exampleExternals d ps = Inr (AsBuffer webpFile)"
  by (simp add: exampleExternals_def)

lemma sniff_webpFile: "sniff webpFile = Some \<lparr>ext = ''webp'', mime = ''image/webp''\<rparr>"
  by code_simp

lemma declared_png: "declaredExtension exampleExternals ''img.png'' = ''png''"
  by code_simp

text \<open>The example of the claim: \<open>img.png\<close>, re-encoded to WebP.\<close>

theorem C5_imageminMinify_format_mismatch_witness:
  "validItem exampleStore (exampleItem ''img.png'') \<and>
   imageminNormalizeConfig exampleExternals webpPlugin = Inr [Plugin ''imagemin-webp'' None] \<and>
   sniff (encodedBytes (AsBuffer webpFile)) = Some \<lparr>ext = ''webp'', mime = ''image/webp''\<rparr> \<and>
   declaredExtension exampleExternals (filename (exampleItem ''img.png'')) = ''png'' \<and>
   \<not> isAbsoluteURL (filename (exampleItem ''img.png'')) \<and>
   returnedNull (imageminMinify exampleExternals (exampleItem ''img.png'') webpPlugin exampleStore) \<and>
   snd (imageminMinify exampleExternals (exampleItem ''img.png'') webpPlugin exampleStore) =
     [[''earlier warning'', useGenerateWarning ''webp'' ''img.png''], []]"
proof -
  let ?item = "exampleItem ''img.png''"
  have v: "validItem exampleStore ?item"
    by (simp add: validItem_def exampleStore_def exampleItem_def)
  have b: "imageminBuffer exampleExternals (data ?item) [Plugin ''imagemin-webp'' None] = Inr (AsBuffer webpFile)"
    by (rule example_buffer)
  have s: "sniff (encodedBytes (AsBuffer webpFile)) = Some \<lparr>ext = ''webp'', mime = ''image/webp''\<rparr>"
    by (simp add: encodedBytes_def sniff_webpFile)
  have d: "declaredExtension exampleExternals (filename ?item) = ''png''"
    by (simp add: exampleItem_def declared_png)
  have x: "ext \<lparr>ext = ''webp'', mime = ''image/webp''\<rparr> \<noteq> declaredExtension exampleExternals (filename ?item)"
    by (simp add: d)
  have l: "\<not> isAbsoluteURL (filename ?item)"
    by code_simp
  from C5_imageminMinify_format_mismatch [OF v example_config b s x, THEN conjunct1, THEN mp, OF l]
  have "returnedNull (imageminMinify exampleExternals ?item webpPlugin exampleStore)"
    and "snd (imageminMinify exampleExternals ?item webpPlugin exampleStore) =
           [[''earlier warning'', useGenerateWarning ''webp'' ''img.png''], []]"
    by (simp_all add: exampleStore_def exampleItem_def deref_def)
  with v example_config s d l show ?thesis by (intro conjI)
qed

text \<open>
  C5 as stated fails for a local path that is absolute: \<open>/images/img.png\<close> is declared
  \<open>png\<close>, the output sniffs as \<open>webp\<close>, and the item is returned with no warning
  appended anywhere.
\<close>

theorem C5_local_absolute_path_accepted:
  "POSIX_PATH_REGEX ''/images/img.png'' \<and>
   declaredExtension exampleExternals ''/images/img.png'' = ''png'' \<and>
   map_option ext (sniff webpFile) = Some ''webp'' \<and>
   \<not> returnedNull (imageminMinify exampleExternals (exampleItem ''/images/img.png'') webpPlugin exampleStore) \<and>
   map_option data (returnedItem
     (imageminMinify exampleExternals (exampleItem ''/images/img.png'') webpPlugin exampleStore)) = Some webpFile \<and>
   snd (imageminMinify exampleExternals (exampleItem ''/images/img.png'') webpPlugin exampleStore) =
     [[''earlier warning''], [], [''earlier warning''], []]"
  by code_simp

lemma isAbsoluteURL_posix: "isAbsoluteURL (CHR ''/'' # rest)"
  by (simp add: isAbsoluteURL_def POSIX_PATH_REGEX_def)

lemma isAbsoluteURL_windows: "isLetter c \<Longrightarrow> isAbsoluteURL (c # CHR '':'' # backslash # rest)"
  by (simp add: isAbsoluteURL_def WINDOWS_PATH_REGEX_def)

lemma schemeRest_colon: "list_all schemeChar cs \<Longrightarrow> schemeRest (cs @ CHR '':'' # rest)"
  by (induction cs) simp_all

lemma isAbsoluteURL_scheme:
  "isLetter c \<Longrightarrow> list_all schemeChar cs \<Longrightarrow> isAbsoluteURL (c # cs @ CHR '':'' # rest)"
  by (simp add: isAbsoluteURL_def ABSOLUTE_URL_REGEX_def schemeRest_colon)

text \<open>
  C10. \<open>isAbsoluteURL\<close> accepts every file name that starts with \<open>/\<close>, every file name
  that starts with a letter, a colon and a backslash, and every file name that starts with
  a scheme and a colon. For an item with such a file name whose arrays are alive, options
  that normalise and names under \<open>minimizedBy\<close> that can be spread, \<open>imageminMinify\<close>
  returns the item under the same file name with the encoder's bytes, whatever these sniff
  to (an extension other than the declared one as well), and the store only grows by the
  two new arrays: no warning is appended.
\<close>

theorem C10_absolute_paths_skip_the_check:
  assumes "(\<exists>rest. filename original = CHR ''/'' # rest) \<or>
           (\<exists>c rest. isLetter c \<and> filename original = c # CHR '':'' # backslash # rest) \<or>
           (\<exists>c cs rest. isLetter c \<and> list_all schemeChar cs \<and>
              filename original = c # cs @ CHR '':'' # rest)"
    and "validItem h original"
    and "imageminNormalizeConfig X options' = Inr ps"
    and "imageminBuffer X (data original) ps = Inr output"
    and "spreadNames (info original) ''minimizedBy'' = Inr names"
  shows "isAbsoluteURL (filename original) \<and>
         map_option filename (returnedItem (imageminMinify X original options' h)) =
           Some (filename original) \<and>
         map_option data (returnedItem (imageminMinify X original options' h)) =
           Some (encodedBytes output) \<and>
         snd (imageminMinify X original options' h) =
           h @ [deref h (warnings original), deref h (errors original)]"
proof -
  from assms(1) have l: "isAbsoluteURL (filename original)"
    by (auto simp: isAbsoluteURL_posix isAbsoluteURL_windows isAbsoluteURL_scheme)
  note m = imageminMinify_absolute [OF assms(2-5) l]
  from l show ?thesis
    by (simp add: m returnedItem_def)
qed

text \<open>A Windows drive path declared \<open>png\<close>, re-encoded to WebP.\<close>

theorem C10_absolute_paths_skip_the_check_witness:
  "isLetter (CHR ''C'') \<and> filename (exampleItem driveLetterName) = CHR ''C'' # CHR '':'' # backslash # ''img.png'' \<and>
   declaredExtension exampleExternals driveLetterName = ''png'' \<and>
   map_option ext (sniff (encodedBytes (AsBuffer webpFile))) = Some ''webp'' \<and>
   isAbsoluteURL (filename (exampleItem driveLetterName)) \<and>
   map_option filename (returnedItem
     (imageminMinify exampleExternals (exampleItem driveLetterName) webpPlugin exampleStore)) =
     Some driveLetterName \<and>
   snd (imageminMinify exampleExternals (exampleItem driveLetterName) webpPlugin exampleStore) =
     [[''earlier warning''], [], [''earlier warning''], []]"
proof -
  let ?item = "exampleItem driveLetterName"
  have c: "isLetter (CHR ''C'')" by code_simp
  have f: "filename ?item = CHR ''C'' # CHR '':'' # backslash # ''img.png''"
    by (simp add: exampleItem_def driveLetterName_def)
  have d: "declaredExtension exampleExternals driveLetterName = ''png''" by code_simp
  have s: "map_option ext (sniff (encodedBytes (AsBuffer webpFile))) = Some ''webp''"
    by (simp add: encodedBytes_def sniff_webpFile)
  have p: "(\<exists>rest. filename ?item = CHR ''/'' # rest) \<or>
           (\<exists>c rest. isLetter c \<and> filename ?item = c # CHR '':'' # backslash # rest) \<or>
           (\<exists>c cs rest. isLetter c \<and> list_all schemeChar cs \<and> filename ?item = c # cs @ CHR '':'' # rest)"
    using c f by blast
  have v: "validItem exampleStore ?item"
    by (simp add: validItem_def exampleStore_def exampleItem_def)
  have b: "imageminBuffer exampleExternals (data ?item) [Plugin ''imagemin-webp'' None] = Inr (AsBuffer webpFile)"
    by (rule example_buffer)
  have n: "spreadNames (info ?item) ''minimizedBy'' = Inr []"
    by (simp add: exampleItem_def spreadNames_def spreadInfo_def)
  from C10_absolute_paths_skip_the_check [OF p v example_config b n]
  have "isAbsoluteURL (filename ?item)"
    and "map_option filename (returnedItem (imageminMinify exampleExternals ?item webpPlugin exampleStore)) =
           Some driveLetterName"
    and "snd (imageminMinify exampleExternals ?item webpPlugin exampleStore) =
           [[''earlier warning''], [], [''earlier warning''], []]"
    by (simp_all add: exampleStore_def exampleItem_def deref_def)
  with c f d s show ?thesis by (intro conjI)
qed










lemma dotIndexFrom_Some_lt: "dotIndexFrom f n = Some d \<Longrightarrow> d < n"
  by (induction n) (auto split: if_splits simp: less_Suc_eq)









lemma imageminMinify_carriedForward:
  assumes "imageminMinify X original options' h = (Inr (Some r), h')" and v: "validItem h original"
  shows "carriedForward original h r h' ''imagemin'' ''minimized'' ''minimizedBy'' []"
  using assms(1)
  by (auto simp: imageminMinify_def Let_def split: sum.splits if_splits
      intro!: processed_carriedForward [OF _ _ _ _ _ v])

lemma imageminGenerate_carriedForward:
  assumes "imageminGenerate X original options' h = (Inr (Some r), h')" and v: "validItem h original"
  shows "carriedForward original h r h' ''imagemin'' ''generated'' ''generatedBy'' []"
  using assms(1)
  by (auto simp: imageminGenerate_def Let_def split: sum.splits if_splits
      intro!: processed_carriedForward [OF _ _ _ _ _ v])

lemma svgoMinify_carriedForward:
  assumes "svgoMinify X original options' h = (Inr (Some r), h')" and v: "validItem h original"
  shows "carriedForward original h r h' ''svgo'' ''minimized'' ''minimizedBy'' []"
  using assms(1)
  by (auto simp: svgoMinify_def Let_def split: sum.splits option.splits if_splits
      intro!: processed_carriedForward [OF _ _ _ _ _ v])

lemma squooshGenerate_carriedForward:
  assumes "squooshGenerate X original options' h = (Inr (Some r), h')" and v: "validItem h original"
  shows "\<exists>image'.
      squooshEncode X (data original) (preprocEntries X (squooshOptionsOf options'))
        (encodeOptionsOf (squooshOptionsOf options')) = Inr image' \<and>
      carriedForward original h r h' ''squoosh'' ''generated'' ''generatedBy''
        [(''width'', Number (bitmapWidth image')), (''height'', Number (bitmapHeight image'))]"
  using assms(1)
  by (auto simp: squooshGenerate_def Let_def split: sum.splits option.splits if_splits
      intro!: processed_carriedForward [OF _ _ _ _ _ v])

lemma squooshMinify_carriedForward:
  assumes "squooshMinify X original options' h = (Inr (Some r), h')" and v: "validItem h original"
  shows "\<exists>targetCodec image'.
      targetCodecOf X original = Some targetCodec \<and>
      squooshEncode X (data original) (preprocEntries X (squooshOptionsOf options'))
        (Some [(targetCodec, codecOptionsOf (squooshOptionsOf options') targetCodec)]) = Inr image' \<and>
      carriedForward original h r h' ''squoosh'' ''minimized'' ''minimizedBy''
        [(''width'', Number (bitmapWidth image')), (''height'', Number (bitmapHeight image'))]"
  using assms(1)
  by (auto simp: squooshMinify_def Let_def split: sum.splits option.splits if_splits
      intro!: processed_carriedForward [OF _ _ _ _ _ v])

lemma sharpTransform_carriedForward:
  assumes "sharpTransform X original sharpOptions targetFormat h = (Inr (Some r), h')"
    and v: "validItem h original"
  shows "\<exists>out.
      sharpSteps X original sharpOptions targetFormat = Inr out \<and>
      carriedForward original h r h' ''sharp''
        (if falsy targetFormat then ''minimized'' else ''generated'')
        (if falsy targetFormat then ''minimizedBy'' else ''generatedBy'')
        [(''width'', Number (outputWidth out)), (''height'', Number (outputHeight out))]"
  using assms(1)
  by (auto simp: sharpTransform_def Let_def split: sum.splits option.splits if_splits
      intro!: processed_carriedForward [OF _ _ _ _ _ v])

lemma sharpGenerate_carriedForward:
  assumes "sharpGenerate X original minimizerOptions h = (Inr (Some r), h')" and v: "validItem h original"
  shows "\<exists>out.
      sharpSteps X original (sharpOptionsOf minimizerOptions)
        (Some (hd (targetFormatsOf (sharpOptionsOf minimizerOptions)))) = Inr out \<and>
      carriedForward original h r h' ''sharp''
        (if hd (targetFormatsOf (sharpOptionsOf minimizerOptions)) = [] then ''minimized'' else ''generated'')
        (if hd (targetFormatsOf (sharpOptionsOf minimizerOptions)) = [] then ''minimizedBy'' else ''generatedBy'')
        [(''width'', Number (outputWidth out)), (''height'', Number (outputHeight out))]"
proof -
  from assms(1) have "sharpTransform X original (sharpOptionsOf minimizerOptions)
      (Some (hd (targetFormatsOf (sharpOptionsOf minimizerOptions)))) h = (Inr (Some r), h')"
    by (auto simp: sharpGenerate_def Let_def split: if_splits)
  from sharpTransform_carriedForward [OF this v] show ?thesis
    by (simp add: falsy_def)
qed

lemma sharpMinify_carriedForward:
  assumes "sharpMinify X original minimizerOptions h = (Inr (Some r), h')" and v: "validItem h original"
  shows "\<exists>out.
      sharpSteps X original (sharpOptionsOf minimizerOptions) None = Inr out \<and>
      carriedForward original h r h' ''sharp'' ''minimized'' ''minimizedBy''
        [(''width'', Number (outputWidth out)), (''height'', Number (outputHeight out))]"
  using sharpTransform_carriedForward [of X original "sharpOptionsOf minimizerOptions" None h r h'] assms
  by (simp add: sharpMinify_def falsy_def)

text \<open>
  C8, as amended. For an item whose arrays are alive, every adapter that returns an item
  returns one that satisfies \<open>carriedForward\<close>: its \<open>warnings\<close> and \<open>errors\<close> are new
  arrays with the issues of the original's, no array that existed has changed, and its
  \<open>info\<close> has the stage flag set, the adapter's name put before the names the original
  had, and every other entry of the original's \<open>info\<close>, but for \<open>width\<close> and \<open>height\<close>
  in the squoosh and sharp adapters. There \<open>width\<close> and \<open>height\<close> are the width and height
  the library reports for the call the adapter made: the bitmap of the image squoosh
  decoded, and the \<open>info\<close> of what sharp's \<open>toBuffer\<close> returned.
\<close>

theorem C8_adapters_carry_forward:
  assumes v: "validItem h original"
  shows
    "(imageminMinify X original imageminOptions h = (Inr (Some r), h') \<longrightarrow>
        carriedForward original h r h' ''imagemin'' ''minimized'' ''minimizedBy'' []) \<and>
     (imageminGenerate X original imageminOptions h = (Inr (Some r), h') \<longrightarrow>
        carriedForward original h r h' ''imagemin'' ''generated'' ''generatedBy'' []) \<and>
     (squooshMinify X original squooshOptions h = (Inr (Some r), h') \<longrightarrow>
        (\<exists>targetCodec image'.
           targetCodecOf X original = Some targetCodec \<and>
           squooshEncode X (data original) (preprocEntries X (squooshOptionsOf squooshOptions))
             (Some [(targetCodec, codecOptionsOf (squooshOptionsOf squooshOptions) targetCodec)]) =
               Inr image' \<and>
           carriedForward original h r h' ''squoosh'' ''minimized'' ''minimizedBy''
             [(''width'', Number (bitmapWidth image')), (''height'', Number (bitmapHeight image'))])) \<and>
     (squooshGenerate X original squooshOptions h = (Inr (Some r), h') \<longrightarrow>
        (\<exists>image'.
           squooshEncode X (data original) (preprocEntries X (squooshOptionsOf squooshOptions))
             (encodeOptionsOf (squooshOptionsOf squooshOptions)) = Inr image' \<and>
           carriedForward original h r h' ''squoosh'' ''generated'' ''generatedBy''
             [(''width'', Number (bitmapWidth image')), (''height'', Number (bitmapHeight image'))])) \<and>
     (sharpTransform X original sharpOptions targetFormat h = (Inr (Some r), h') \<longrightarrow>
        (\<exists>output.
           sharpSteps X original sharpOptions targetFormat = Inr output \<and>
           carriedForward original h r h' ''sharp''
             (if falsy targetFormat then ''minimized'' else ''generated'')
             (if falsy targetFormat then ''minimizedBy'' else ''generatedBy'')
             [(''width'', Number (outputWidth output)), (''height'', Number (outputHeight output))])) \<and>
     (sharpMinify X original minimizerOptions h = (Inr (Some r), h') \<longrightarrow>
        (\<exists>output.
           sharpSteps X original (sharpOptionsOf minimizerOptions) None = Inr output \<and>
           carriedForward original h r h' ''sharp'' ''minimized'' ''minimizedBy''
             [(''width'', Number (outputWidth output)), (''height'', Number (outputHeight output))])) \<and>
     (sharpGenerate X original minimizerOptions h = (Inr (Some r), h') \<longrightarrow>
        (\<exists>output.
           sharpSteps X original (sharpOptionsOf minimizerOptions)
             (Some (hd (targetFormatsOf (sharpOptionsOf minimizerOptions)))) = Inr output \<and>
           carriedForward original h r h' ''sharp''
             (if hd (targetFormatsOf (sharpOptionsOf minimizerOptions)) = []
              then ''minimized'' else ''generated'')
             (if hd (targetFormatsOf (sharpOptionsOf minimizerOptions)) = []
              then ''minimizedBy'' else ''generatedBy'')
             [(''width'', Number (outputWidth output)), (''height'', Number (outputHeight output))])) \<and>
     (svgoMinify X original svgoOptions h = (Inr (Some r), h') \<longrightarrow>
        carriedForward original h r h' ''svgo'' ''minimized'' ''minimizedBy'' [])"
  apply (intro conjI impI)
  subgoal using v by (rule imageminMinify_carriedForward [rotated])
  subgoal using v by (rule imageminGenerate_carriedForward [rotated])
  subgoal using v by (rule squooshMinify_carriedForward [rotated])
  subgoal using v by (rule squooshGenerate_carriedForward [rotated])
  subgoal using v by (rule sharpTransform_carriedForward [rotated])
  subgoal using v by (rule sharpMinify_carriedForward [rotated])
  subgoal using v by (rule sharpGenerate_carriedForward [rotated])
  subgoal using v by (rule svgoMinify_carriedForward [rotated])
  done

text \<open>
  \<open>sharpMinify\<close> scaling to half the size an item of 100 by 80 pixels that imagemin has
  minimized before: the new size is written, the entry \<open>immutable\<close> is carried over and
  \<open>sharp\<close> is put before \<open>imagemin\<close>.
\<close>

theorem C8_adapters_carry_forward_witness:
  "validItem exampleStore measuredItem \<and>
   sharpSteps exampleExternals measuredItem (sharpOptionsOf halfSize) None =
     Inr \<lparr>outputData = data measuredItem, outputWidth = 50, outputHeight = 40\<rparr> \<and>
   returnedItem (sharpMinify exampleExternals measuredItem halfSize exampleStore) \<noteq> None \<and>
   carriedForward measuredItem exampleStore
     (the (returnedItem (sharpMinify exampleExternals measuredItem halfSize exampleStore)))
     (snd (sharpMinify exampleExternals measuredItem halfSize exampleStore))
     ''sharp'' ''minimized'' ''minimizedBy'' [(''width'', Number 50), (''height'', Number 40)] \<and>
   returnedInfo (sharpMinify exampleExternals measuredItem halfSize exampleStore) ''immutable'' =
     Some (Flag True) \<and>
   returnedInfo (sharpMinify exampleExternals measuredItem halfSize exampleStore) ''minimizedBy'' =
     Some (Names [''sharp'', ''imagemin'']) \<and>
   snd (sharpMinify exampleExternals measuredItem halfSize exampleStore) =
     [[''earlier warning''], [], [''earlier warning''], []]"
proof -
  let ?res = "sharpMinify exampleExternals measuredItem halfSize exampleStore"
  have v: "validItem exampleStore measuredItem"
    by code_simp
  have steps: "sharpSteps exampleExternals measuredItem (sharpOptionsOf halfSize) None =
     Inr \<lparr>outputData = data measuredItem, outputWidth = 50, outputHeight = 40\<rparr>"
    by code_simp
  have s: "returnedItem ?res \<noteq> None"
    by code_simp
  then obtain r where r: "returnedItem ?res = Some r" by blast
  then have "fst ?res = Inr (Some r)"
    by (auto simp: returnedItem_def split: sum.splits option.splits)
  then have e: "?res = (Inr (Some r), snd ?res)"
    by (metis prod.collapse)
  from C8_adapters_carry_forward [OF v, THEN conjunct2, THEN conjunct2, THEN conjunct2,
      THEN conjunct2, THEN conjunct2, THEN conjunct1, THEN mp, OF e]
  have "carriedForward measuredItem exampleStore (the (returnedItem ?res)) (snd ?res)
     ''sharp'' ''minimized'' ''minimizedBy'' [(''width'', Number 50), (''height'', Number 40)]"
    by (simp add: r steps)
  moreover have "returnedInfo ?res ''immutable'' = Some (Flag True)"
    by code_simp
  moreover have "returnedInfo ?res ''minimizedBy'' = Some (Names [''sharp'', ''imagemin''])"
    by code_simp
  moreover have "snd ?res = [[''earlier warning''], [], [''earlier warning''], []]"
    by code_simp
  ultimately show ?thesis using v steps s by (intro conjI)
qed

text \<open>
  C8 as stated fails: the original's \<open>info\<close> holds the entry \<open>width: 100\<close>, and the item
  that \<open>sharpMinify\<close> returns after scaling to half the size holds \<open>width: 50\<close> in its
  place.
\<close>

theorem C8_width_overwritten:
  "spreadInfo (info measuredItem) ''width'' = Some (Number 100) \<and>
   \<not> returnedNull (sharpMinify exampleExternals measuredItem halfSize exampleStore) \<and>
   returnedInfo (sharpMinify exampleExternals measuredItem halfSize exampleStore) ''width'' =
     Some (Number 50)"
  by code_simp

end
